theory Spec2Isabelle
  imports Complex_Main "HOL-Library.Char_ord" "HOL-Library.List_Lexorder"
begin

section \<open>Data model (the interfaces of the types module)\<close>

text \<open>
  A JavaScript \<open>number\<close> that carries a measurement is read in two ways.

  \<^item> The exact reading takes it as a HOL \<open>real\<close>.  The functions \<open>calculateStats\<close>,
    \<open>calculateBTCTrend\<close>, \<open>calculateBitcoinDirectionIndex\<close> and \<open>calculateCorrelation\<close>
    below are the formulas the code writes down, over the real numbers.  This reading
    knows no rounding, no \<open>Infinity\<close> and no \<open>NaN\<close>.  It serves where a statement is about
    the formulas in exact arithmetic, and where numbers are only carried from one
    place to another (the two joins).

  \<^item> The double reading takes it as a value of the type \<open>number\<close> of the
    section on IEEE 754 doubles: a finite value, an infinity or \<open>NaN\<close>, with
    operations that round to the nearest double.  The functions with the suffix
    \<open>_d\<close> are the same code, line by line, over that type.  Every statement about
    what the program returns on a given input is made in this reading.

  Millisecond timestamps are \<open>int\<close>, ISO dates are \<open>string\<close> (compared
  lexicographically, character by character, as JavaScript compares strings).
  Optional fields are \<open>option\<close>.  Field names that several interfaces share
  (\<open>date\<close>, \<open>value\<close>, \<open>timestamp\<close>) carry a prefix, since record fields are
  global constants; the field \<open>interpretation\<close> is \<open>interp\<close>, the longer name being
  reserved.
\<close>

record FREDData =
  fred_date :: string
  fred_value :: real

record BitcoinPrice =
  price :: real
  price_timestamp :: int
  change24h :: "real option"

record ISMPMIData =
  pmi_value :: real
  pmi_date :: string
  pmi_change :: "real option"
  pmi_note :: "string option"
  pmi_source :: "string option"

record LiquidityData =
  fedBalanceSheet :: real
  tga :: real
  rrp :: real
  liquidity :: real
  liquidity_date :: string

datatype Interpretation = very_bearish | bearish | neutral | bullish | very_bullish

record BitcoinDirectionIndex =
  index :: real
  liquidityZScore :: real
  pmiZScore :: real
  btcTrend :: real
  timestamp :: int
  interp :: Interpretation

record Stats =
  mean :: real
  stdDev :: real

section \<open>The index calculation in exact arithmetic (src/lib/index-calculation.ts)\<close>

text \<open>
  The functions of this section are the code with \<open>+\<close>, \<open>-\<close>, \<open>*\<close>, \<open>/\<close> and
  \<open>Math.sqrt\<close> read as the operations of the real numbers.  The same code over
  doubles follows in the section on the index calculation over doubles.
\<close>

subsection \<open>Array helpers\<close>

text \<open>\<open>values.reduce((sum, val) => sum + f(val), 0)\<close>: a left fold from 0.\<close>

definition reduce_sum :: "(real \<Rightarrow> real) \<Rightarrow> real list \<Rightarrow> real" where
  "reduce_sum f vals = foldl (\<lambda>sum val. sum + f val) 0 vals"

text \<open>\<open>xs.slice(-n)\<close>: the last \<open>n\<close> elements, the whole array when it is shorter.\<close>

definition slice_last :: "nat \<Rightarrow> 'a list \<Rightarrow> 'a list" where
  "slice_last n xs = drop (length xs - n) xs"

text \<open>\<open>Math.round\<close>: the nearest integer, a half rounded towards plus infinity.\<close>

definition Math_round :: "real \<Rightarrow> real" where
  "Math_round x = real_of_int \<lfloor>x + 1 / 2\<rfloor>"

subsection \<open>calculateZScore, calculateStats\<close>

definition calculateZScore :: "real \<Rightarrow> real \<Rightarrow> real \<Rightarrow> real" where
  "calculateZScore v m sd = (if sd = 0 then 0 else (v - m) / sd)"

text \<open>\<open>stdDev || 1\<close> replaces a falsy standard deviation, here 0, by 1.\<close>

definition calculateStats :: "real list \<Rightarrow> Stats" where
  "calculateStats vals =
     (if length vals = 0 then \<lparr>mean = 0, stdDev = 1\<rparr>
      else
        let m = reduce_sum (\<lambda>val. val) vals / real (length vals);
            variance = reduce_sum (\<lambda>val. (val - m) ^ 2) vals / real (length vals);
            sd = sqrt variance
        in \<lparr>mean = m, stdDev = (if sd = 0 then 1 else sd)\<rparr>)"

subsection \<open>calculateBTCTrend\<close>

definition calculateBTCTrend :: "real \<Rightarrow> real list \<Rightarrow> real" where
  "calculateBTCTrend currentPrice historicalPrices =
     (if length historicalPrices < 2 then 0
      else
        let shortTerm = slice_last 7 historicalPrices;
            mediumTerm = slice_last 30 historicalPrices
        in if length shortTerm = 0 \<or> length mediumTerm = 0 then 0
           else
             let shortTermAvg = reduce_sum (\<lambda>p. p) shortTerm / real (length shortTerm);
                 mediumTermAvg = reduce_sum (\<lambda>p. p) mediumTerm / real (length mediumTerm)
             in if mediumTermAvg = 0 then 0
                else
                  let trend = (shortTermAvg - mediumTermAvg) / mediumTermAvg
                  in max (- 1) (min 1 (trend * 10)))"

subsection \<open>calculateBitcoinDirectionIndex\<close>

text \<open>
  Lines 87 to 104: the clamped z-scores, the weighted sum and the rescaling to
  the 0..100 scale.  This is the value of the local constant \<open>index\<close>, before it
  is rounded for the result.
\<close>

definition scaledIndex :: "real \<Rightarrow> real \<Rightarrow> real \<Rightarrow> real" where
  "scaledIndex lz pz trend =
     (let normalizedLiquidity = max (- 2) (min 2 lz) / 2;
          normalizedPMI = max (- 2) (min 2 pz) / 2;
          rawIndex = (4 / 10) * normalizedLiquidity + (35 / 100) * normalizedPMI
                     + (25 / 100) * trend
      in ((rawIndex + 1) / 2) * 100)"

text \<open>Lines 107 to 118: the if/else-if chain on the local constant \<open>index\<close>.\<close>

definition classify :: "real \<Rightarrow> Interpretation" where
  "classify idx =
     (if idx < 20 then very_bearish
      else if idx < 40 then bearish
      else if idx < 60 then neutral
      else if idx < 80 then bullish
      else very_bullish)"

text \<open>
  The function reads the wall clock (\<open>Date.now()\<close>) for the \<open>timestamp\<close> field.
  That reading is the first parameter \<open>now\<close> of the model: it is the only thing
  the function takes from outside its arguments.
\<close>

definition calculateBitcoinDirectionIndex ::
  "int \<Rightarrow> LiquidityData \<Rightarrow> real list \<Rightarrow> ISMPMIData \<Rightarrow> real list \<Rightarrow> BitcoinPrice \<Rightarrow> real list
     \<Rightarrow> BitcoinDirectionIndex" where
  "calculateBitcoinDirectionIndex now liq liquidityHistory pmi pmiHistory btcPrice btcPriceHistory =
     (let liquidityStats = calculateStats liquidityHistory;
          lz = calculateZScore (liquidity liq) (mean liquidityStats) (stdDev liquidityStats);
          pmiNormalized = pmi_value pmi - 50;
          pmiStats = calculateStats (map (\<lambda>p. p - 50) pmiHistory);
          pz = calculateZScore pmiNormalized (mean pmiStats) (stdDev pmiStats);
          trend = calculateBTCTrend (price btcPrice) btcPriceHistory;
          idx = scaledIndex lz pz trend
      in \<lparr>index = Math_round (idx * 100) / 100,
          liquidityZScore = lz,
          pmiZScore = pz,
          btcTrend = trend,
          timestamp = now,
          interp = classify idx\<rparr>)"

subsection \<open>calculateCorrelation\<close>



section \<open>The forward-fill join of the index history (src/app/api/fred/route.ts)\<close>

text \<open>
  The handler walks over the Bitcoin price points and, for each of them, looks
  up the liquidity and the PMI that were in force on the point's date.  A price
  point of the history has a timestamp, a date and a price; the handler pushes
  a point with the computed index.
\<close>

record PricePoint =
  pp_timestamp :: int
  pp_date :: string
  pp_price :: real

record IndexHistoryPoint =
  ih_timestamp :: int
  ih_date :: string
  ih_index :: real
  ih_price :: real

text \<open>
  Lines 295 to 317: the two backward \<open>for\<close> loops over the date-sorted entries.
  The last argument of a scan is the number of entries still to visit, so
  \<open>Suc i\<close> stands for the loop index \<open>i\<close>; the loop stops (\<open>break\<close>) at the
  first entry whose date is at most \<open>dateStr\<close>.  Without such an entry the
  variables keep their initial values: liquidity 0 with the empty date, PMI 50.
  \<open>findLiquidity\<close> and \<open>findPMI\<close> are the loops started at the last index.
\<close>

fun scanLiquidity :: "(string \<times> real) list \<Rightarrow> string \<Rightarrow> nat \<Rightarrow> real \<times> string" where
  "scanLiquidity liquidityEntries dateStr 0 = (0, '''')"
| "scanLiquidity liquidityEntries dateStr (Suc i) =
     (case liquidityEntries ! i of (date, val) \<Rightarrow>
        if date \<le> dateStr then (val, date)
        else scanLiquidity liquidityEntries dateStr i)"

definition findLiquidity :: "(string \<times> real) list \<Rightarrow> string \<Rightarrow> real \<times> string" where
  "findLiquidity liquidityEntries dateStr =
     scanLiquidity liquidityEntries dateStr (length liquidityEntries)"

fun scanPMI :: "(string \<times> real) list \<Rightarrow> string \<Rightarrow> nat \<Rightarrow> real" where
  "scanPMI pmiEntries dateStr 0 = 50"
| "scanPMI pmiEntries dateStr (Suc i) =
     (case pmiEntries ! i of (date, val) \<Rightarrow>
        if date \<le> dateStr then val
        else scanPMI pmiEntries dateStr i)"

definition findPMI :: "(string \<times> real) list \<Rightarrow> string \<Rightarrow> real" where
  "findPMI pmiEntries dateStr = scanPMI pmiEntries dateStr (length pmiEntries)"

text \<open>\<open>series.find(x => x.date === d)?.value || 0\<close>.\<close>

definition find_value :: "FREDData list \<Rightarrow> string \<Rightarrow> real" where
  "find_value series d =
     (case find (\<lambda>f. fred_date f = d) series of None \<Rightarrow> 0 | Some f \<Rightarrow> fred_value f)"

text \<open>
  The body of the loop over the price points, lines 292 to 390: \<open>None\<close> is a
  \<open>continue\<close>, \<open>Some\<close> is the point pushed on \<open>indexHistory\<close>.  An empty
  \<open>liquidityDate\<close> is falsy, so the point is skipped.  The clock reading \<open>now\<close>
  reaches only the \<open>timestamp\<close> of the direction index, which the loop does not
  read.
\<close>

definition historyPoint ::
  "int \<Rightarrow> FREDData list \<Rightarrow> FREDData list \<Rightarrow> FREDData list \<Rightarrow> (string \<times> real) list \<Rightarrow> real list
     \<Rightarrow> (string \<times> real) list \<Rightarrow> real list \<Rightarrow> PricePoint list \<Rightarrow> PricePoint
     \<Rightarrow> IndexHistoryPoint option" where
  "historyPoint now fedData tgaData rrpData liquidityEntries liquidityHistory pmiEntries
       pmiHistoryValues btcPriceHistory btcPoint =
     (let dateStr = pp_date btcPoint;
          (liq, liquidityDate) = findLiquidity liquidityEntries dateStr;
          pmiValue = findPMI pmiEntries dateStr;
          recentPrices = map pp_price (slice_last 30
             (filter (\<lambda>p. pp_timestamp p \<le> pp_timestamp btcPoint) btcPriceHistory))
      in if length recentPrices < 2 then None
         else if liquidityDate = '''' then None
         else
           let liquidityData = \<lparr>fedBalanceSheet = find_value fedData liquidityDate,
                  tga = find_value tgaData liquidityDate,
                  rrp = find_value rrpData liquidityDate,
                  liquidity = liq,
                  liquidity_date = liquidityDate\<rparr>;
               pmiData = \<lparr>pmi_value = pmiValue, pmi_date = dateStr, pmi_change = None,
                  pmi_note = None, pmi_source = None\<rparr>;
               btcPrice = \<lparr>price = pp_price btcPoint, price_timestamp = pp_timestamp btcPoint,
                  change24h = None\<rparr>;
               directionIndex = calculateBitcoinDirectionIndex now liquidityData liquidityHistory
                  pmiData pmiHistoryValues btcPrice recentPrices
           in Some \<lparr>ih_timestamp = pp_timestamp btcPoint, ih_date = dateStr,
                 ih_index = index directionIndex, ih_price = pp_price btcPoint\<rparr>)"

section \<open>The merge of prices and index for the chart (src/components/btc-chart.tsx)\<close>

text \<open>
  Lines 123 to 191.  A point of the index series has an \<open>index\<close> of type
  \<open>number | null\<close>: \<open>Some i\<close> is a finite number, \<open>None\<close> any value the guard
  of line 130 rejects (null, not a number, not finite).  An index response that
  is missing or has no data leaves the map empty, as the empty series does.
\<close>

record ChartDataPoint =
  cd_timestamp :: int
  cd_date :: string
  cd_price :: real
  cd_index :: "real option"

record IndexEntry =
  ie_index :: real
  ie_timestamp :: int

text \<open>
  \<open>indexMap\<close> is a JavaScript \<open>Map\<close>: it iterates in insertion order, and
  \<open>set\<close> on a key that is present replaces the value and keeps the position.
  It is an association list with distinct keys; \<open>get\<close> is \<open>map_of\<close> and \<open>size\<close>
  is \<open>length\<close>.
\<close>

fun map_set :: "'k \<Rightarrow> 'v \<Rightarrow> ('k \<times> 'v) list \<Rightarrow> ('k \<times> 'v) list" where
  "map_set k v [] = [(k, v)]"
| "map_set k v ((k', v') # m) = (if k' = k then (k, v) # m else (k', v') # map_set k v m)"

definition storeIndex :: "(int \<times> IndexEntry) list \<Rightarrow> ChartDataPoint \<Rightarrow> (int \<times> IndexEntry) list" where
  "storeIndex indexMap point =
     (case cd_index point of
        None \<Rightarrow> indexMap
      | Some i \<Rightarrow> map_set (cd_timestamp point)
                    \<lparr>ie_index = i, ie_timestamp = cd_timestamp point\<rparr> indexMap)"

definition buildIndexMap :: "ChartDataPoint list \<Rightarrow> (int \<times> IndexEntry) list" where
  "buildIndexMap indexData = foldl storeIndex [] indexData"

text \<open>
  Lines 143 to 165.  \<open>closestDiff\<close> starts at \<open>Infinity\<close>, which is \<open>None\<close>
  here.  An entry of the map is an object, hence truthy, so \<open>if (exactMatch)\<close>
  asks whether the key is present.
\<close>

definition closest_step :: "int \<Rightarrow> int option \<times> real option \<Rightarrow> int \<times> IndexEntry
     \<Rightarrow> int option \<times> real option" where
  "closest_step btcTimestamp acc entry =
     (case acc of (closestDiff, closestIndex) \<Rightarrow>
      case entry of (indexTimestamp, indexData) \<Rightarrow>
        let diff = \<bar>btcTimestamp - indexTimestamp\<bar>
        in if diff < 86400000 \<and> (case closestDiff of None \<Rightarrow> True | Some c \<Rightarrow> diff < c)
           then (Some diff, Some (ie_index indexData))
           else (closestDiff, closestIndex))"

definition matchIndex :: "(int \<times> IndexEntry) list \<Rightarrow> int \<Rightarrow> real option" where
  "matchIndex indexMap btcTimestamp =
     (case map_of indexMap btcTimestamp of
        Some exactMatch \<Rightarrow> Some (ie_index exactMatch)
      | None \<Rightarrow> snd (foldl (closest_step btcTimestamp) (None, None) indexMap))"

text \<open>
  Lines 170 to 191: a price point is skipped (\<open>None\<close>) or pushed with its index;
  the merged points are then sorted by timestamp, equal timestamps keeping
  their order.
\<close>

definition mergePoint :: "(int \<times> IndexEntry) list \<Rightarrow> PricePoint \<Rightarrow> ChartDataPoint option" where
  "mergePoint indexMap btcPoint =
     (let matchedIndex = matchIndex indexMap (pp_timestamp btcPoint)
      in if length indexMap > 0 \<and> matchedIndex = None then None
         else
           let finalIndex = (case matchedIndex of
                               Some i \<Rightarrow> Some i
                             | None \<Rightarrow> if length indexMap = 0 then Some 50 else None)
           in case finalIndex of
                None \<Rightarrow> None
              | Some i \<Rightarrow> Some \<lparr>cd_timestamp = pp_timestamp btcPoint, cd_date = pp_date btcPoint,
                                cd_price = pp_price btcPoint, cd_index = Some i\<rparr>)"

definition mergeChartData :: "PricePoint list \<Rightarrow> ChartDataPoint list \<Rightarrow> ChartDataPoint list" where
  "mergeChartData btcData indexData =
     sort_key cd_timestamp (List.map_filter (mergePoint (buildIndexMap indexData)) btcData)"

section \<open>Reference notions, in the specification's words\<close>

text \<open>
  The statistics the specification names, written with \<open>sum_list\<close> and not after
  the code: the theorems below compare the code's folds and loops with them.
\<close>

definition arithmetic_mean :: "real list \<Rightarrow> real" where
  "arithmetic_mean xs = sum_list xs / real (length xs)"

definition population_stddev :: "real list \<Rightarrow> real" where
  "population_stddev xs =
     sqrt ((\<Sum>x\<leftarrow>xs. (x - arithmetic_mean xs) ^ 2) / real (length xs))"




text \<open>
  The forward-fill join: scanning from the most recent entry to the oldest, the
  first entry dated at or before the target.
\<close>

definition forward_fill :: "(string \<times> real) list \<Rightarrow> string \<Rightarrow> (string \<times> real) option" where
  "forward_fill series target = find (\<lambda>(date, val). date \<le> target) (rev series)"

text \<open>
  The valid index observations of a series (those with a finite number as
  index), the index observed at a timestamp (a later observation replaces an
  earlier one with the same timestamp), a price point merged with an index,
  and the tolerance of 24 hours in milliseconds.
\<close>

definition valid_observations :: "ChartDataPoint list \<Rightarrow> (int \<times> real) list" where
  "valid_observations indexData =
     List.map_filter (\<lambda>p. map_option (\<lambda>i. (cd_timestamp p, i)) (cd_index p)) indexData"

definition observed_at :: "ChartDataPoint list \<Rightarrow> int \<Rightarrow> real option" where
  "observed_at indexData t = map_of (rev (valid_observations indexData)) t"

definition merged :: "PricePoint \<Rightarrow> real \<Rightarrow> ChartDataPoint" where
  "merged p i = \<lparr>cd_timestamp = pp_timestamp p, cd_date = pp_date p, cd_price = pp_price p,
                 cd_index = Some i\<rparr>"

definition tolerance_ms :: int where
  "tolerance_ms = 24 * 60 * 60 * 1000"

definition within_tolerance :: "int \<Rightarrow> int \<Rightarrow> bool" where
  "within_tolerance t s = (\<bar>t - s\<bar> < tolerance_ms)"

section \<open>IEEE 754 doubles\<close>

text \<open>
  A JavaScript number is a binary64 value: \<open>NaN\<close>, one of the two infinities, or
  a finite value.  The two zeros are one value here: the sign of a zero shows
  only in a division by zero, and every division of the code under study is
  by an array length that is not 0, by a constant, or behind a test
  \<open>=== 0\<close> that both zeros pass.
\<close>

datatype number = NaN | PInf | NInf | Fin real

text \<open>
  Rounding to nearest, ties to even.  A finite double is an integer multiple
  \<open>m * 2 ^ e\<close> with \<open>\<bar>m\<bar> < 2 ^ 53\<close> and \<open>- 1074 \<le> e \<le> 971\<close>.  The spacing of the
  doubles around \<open>x\<close> is \<open>ulp x\<close>: 52 binary places below the leading bit of
  \<open>x\<close>, and never finer than \<open>2 ^ - 1074\<close>, the spacing of the subnormal range.
  \<open>nearest x\<close> is the multiple of \<open>ulp x\<close> closest to \<open>x\<close>, the even multiple
  at a tie; \<open>rd x\<close> is the double an operation returns when its exact result
  is \<open>x\<close>: an infinity as soon as \<open>nearest x\<close> reaches \<open>2 ^ 1024\<close>.
  \<open>Fin x\<close> stands for a double when \<open>x\<close> is one, that is when \<open>rd x = Fin x\<close>.
  The operations below return doubles on all operands, so a statement about
  all numbers holds of all doubles; the inputs of the examples are doubles.
\<close>

definition binade :: "real \<Rightarrow> int" where
  "binade x = max (- 1022) \<lfloor>log 2 \<bar>x\<bar>\<rfloor>"

definition ulp :: "real \<Rightarrow> real" where
  "ulp x = 2 powr (real_of_int (binade x) - 52)"

definition round_ties_even :: "real \<Rightarrow> int" where
  "round_ties_even q =
     (let f = \<lfloor>q\<rfloor>
      in if q - of_int f < 1 / 2 then f
         else if 1 / 2 < q - of_int f then f + 1
         else if even f then f else f + 1)"

definition nearest :: "real \<Rightarrow> real" where
  "nearest x = (if x = 0 then 0 else of_int (round_ties_even (x / ulp x)) * ulp x)"

definition overflow_threshold :: real where
  "overflow_threshold = 2 ^ 1024"

definition rd :: "real \<Rightarrow> number" where
  "rd x =
     (if overflow_threshold \<le> nearest x then PInf
      else if nearest x \<le> - overflow_threshold then NInf
      else Fin (nearest x))"

text \<open>
  The arithmetic of JavaScript on numbers: the exact result, rounded, on
  finite operands, and the IEEE rules for infinities and \<open>NaN\<close>.  A literal
  such as \<open>0.4\<close> is the double \<open>rd (4 / 10)\<close>.
\<close>

fun fneg :: "number \<Rightarrow> number" where
  "fneg (Fin a) = Fin (- a)"
| "fneg PInf = NInf"
| "fneg NInf = PInf"
| "fneg NaN = NaN"

fun fadd :: "number \<Rightarrow> number \<Rightarrow> number" where
  "fadd (Fin a) (Fin b) = rd (a + b)"
| "fadd (Fin a) PInf = PInf"
| "fadd (Fin a) NInf = NInf"
| "fadd PInf (Fin b) = PInf"
| "fadd PInf PInf = PInf"
| "fadd PInf NInf = NaN"
| "fadd NInf (Fin b) = NInf"
| "fadd NInf NInf = NInf"
| "fadd NInf PInf = NaN"
| "fadd NaN y = NaN"
| "fadd x NaN = NaN"

definition fsub :: "number \<Rightarrow> number \<Rightarrow> number" where
  "fsub x y = fadd x (fneg y)"

fun fmul :: "number \<Rightarrow> number \<Rightarrow> number" where
  "fmul (Fin a) (Fin b) = rd (a * b)"
| "fmul (Fin a) PInf = (if a = 0 then NaN else if 0 < a then PInf else NInf)"
| "fmul (Fin a) NInf = (if a = 0 then NaN else if 0 < a then NInf else PInf)"
| "fmul PInf (Fin b) = (if b = 0 then NaN else if 0 < b then PInf else NInf)"
| "fmul NInf (Fin b) = (if b = 0 then NaN else if 0 < b then NInf else PInf)"
| "fmul PInf PInf = PInf"
| "fmul PInf NInf = NInf"
| "fmul NInf PInf = NInf"
| "fmul NInf NInf = PInf"
| "fmul NaN y = NaN"
| "fmul x NaN = NaN"

text \<open>
  A division by zero is written out for completeness (a positive zero is
  assumed); no call of the code under study reaches it.
\<close>

fun fdiv :: "number \<Rightarrow> number \<Rightarrow> number" where
  "fdiv (Fin a) (Fin b) =
     (if b = 0 then (if a = 0 then NaN else if 0 < a then PInf else NInf) else rd (a / b))"
| "fdiv (Fin a) PInf = Fin 0"
| "fdiv (Fin a) NInf = Fin 0"
| "fdiv PInf (Fin b) = (if 0 \<le> b then PInf else NInf)"
| "fdiv NInf (Fin b) = (if 0 \<le> b then NInf else PInf)"
| "fdiv PInf PInf = NaN"
| "fdiv PInf NInf = NaN"
| "fdiv NInf PInf = NaN"
| "fdiv NInf NInf = NaN"
| "fdiv NaN y = NaN"
| "fdiv x NaN = NaN"

text \<open>\<open>Math.sqrt\<close> is correctly rounded; the square root of a negative number is \<open>NaN\<close>.\<close>

fun Math_sqrt :: "number \<Rightarrow> number" where
  "Math_sqrt (Fin a) = (if a < 0 then NaN else rd (sqrt a))"
| "Math_sqrt PInf = PInf"
| "Math_sqrt NInf = NaN"
| "Math_sqrt NaN = NaN"

text \<open>\<open>x < y\<close> on numbers: false as soon as an operand is \<open>NaN\<close>.\<close>

fun fless :: "number \<Rightarrow> number \<Rightarrow> bool" where
  "fless (Fin a) (Fin b) = (a < b)"
| "fless (Fin a) PInf = True"
| "fless NInf (Fin b) = True"
| "fless NInf PInf = True"
| "fless x y = False"

text \<open>
  The falsy numbers, which \<open>x || 1\<close> replaces by 1: zero and \<open>NaN\<close>.
  \<open>Math.min\<close> and \<open>Math.max\<close> return \<open>NaN\<close> as soon as an argument is \<open>NaN\<close>.
  \<open>Math.round\<close> is the nearest integer, a half rounded towards plus infinity;
  the integer is a double whenever the argument is one.
\<close>

definition falsy :: "number \<Rightarrow> bool" where
  "falsy x = (x = Fin 0 \<or> x = NaN)"

definition Math_min :: "number \<Rightarrow> number \<Rightarrow> number" where
  "Math_min x y = (if x = NaN \<or> y = NaN then NaN else if fless y x then y else x)"

definition Math_max :: "number \<Rightarrow> number \<Rightarrow> number" where
  "Math_max x y = (if x = NaN \<or> y = NaN then NaN else if fless x y then y else x)"

fun Math_round_d :: "number \<Rightarrow> number" where
  "Math_round_d (Fin a) = Fin (real_of_int \<lfloor>a + 1 / 2\<rfloor>)"
| "Math_round_d x = x"

text \<open>
  \<open>Math.pow(x, 2)\<close> is read as the rounded product \<open>x * x\<close>, and an array
  length as the double of that integer.
\<close>

definition Math_pow2 :: "number \<Rightarrow> number" where
  "Math_pow2 x = fmul x x"

definition length_d :: "'a list \<Rightarrow> number" where
  "length_d xs = Fin (real (length xs))"

text \<open>A number is at most, or at least, a real bound; \<open>NaN\<close> is neither.\<close>

definition at_most :: "number \<Rightarrow> real \<Rightarrow> bool" where
  "at_most n t = (case n of Fin y \<Rightarrow> y \<le> t | NInf \<Rightarrow> True | _ \<Rightarrow> False)"

definition at_least :: "number \<Rightarrow> real \<Rightarrow> bool" where
  "at_least n t = (case n of Fin y \<Rightarrow> t \<le> y | PInf \<Rightarrow> True | _ \<Rightarrow> False)"

section \<open>The index calculation over doubles (src/lib/index-calculation.ts)\<close>

text \<open>
  The interfaces and the functions of the module once more, every number a
  double and every operation rounded.  The definitions follow the source
  line by line, as those of the exact reading do.
\<close>

record LiquidityData_d =
  fedBalanceSheet_d :: number
  tga_d :: number
  rrp_d :: number
  liquidity_d :: number
  liquidity_date_d :: string

record ISMPMIData_d =
  pmi_value_d :: number
  pmi_date_d :: string
  pmi_change_d :: "number option"
  pmi_note_d :: "string option"
  pmi_source_d :: "string option"

record BitcoinPrice_d =
  price_d :: number
  price_timestamp_d :: int
  change24h_d :: "number option"

record BitcoinDirectionIndex_d =
  index_d :: number
  liquidityZScore_d :: number
  pmiZScore_d :: number
  btcTrend_d :: number
  timestamp_d :: int
  interp_d :: Interpretation

record Stats_d =
  mean_d :: number
  stdDev_d :: number

definition reduce_sum_d :: "(number \<Rightarrow> number) \<Rightarrow> number list \<Rightarrow> number" where
  "reduce_sum_d f vals = foldl (\<lambda>sum val. fadd sum (f val)) (Fin 0) vals"

text \<open>Lines 6 to 9: \<open>stdDev === 0\<close> is false of \<open>NaN\<close>.\<close>

definition calculateZScore_d :: "number \<Rightarrow> number \<Rightarrow> number \<Rightarrow> number" where
  "calculateZScore_d v m sd = (if sd = Fin 0 then Fin 0 else fdiv (fsub v m) sd)"

text \<open>Lines 14 to 26.\<close>

definition calculateStats_d :: "number list \<Rightarrow> Stats_d" where
  "calculateStats_d vals =
     (if length vals = 0 then \<lparr>mean_d = Fin 0, stdDev_d = Fin 1\<rparr>
      else
        let m = fdiv (reduce_sum_d (\<lambda>val. val) vals) (length_d vals);
            variance = fdiv (reduce_sum_d (\<lambda>val. Math_pow2 (fsub val m)) vals) (length_d vals);
            sd = Math_sqrt variance
        in \<lparr>mean_d = m, stdDev_d = (if falsy sd then Fin 1 else sd)\<rparr>)"

text \<open>Lines 32 to 51: \<open>mediumTermAvg === 0\<close> is false of \<open>NaN\<close> and of an infinity.\<close>

definition calculateBTCTrend_d :: "number \<Rightarrow> number list \<Rightarrow> number" where
  "calculateBTCTrend_d currentPrice historicalPrices =
     (if length historicalPrices < 2 then Fin 0
      else
        let shortTerm = slice_last 7 historicalPrices;
            mediumTerm = slice_last 30 historicalPrices
        in if length shortTerm = 0 \<or> length mediumTerm = 0 then Fin 0
           else
             let shortTermAvg = fdiv (reduce_sum_d (\<lambda>p. p) shortTerm) (length_d shortTerm);
                 mediumTermAvg = fdiv (reduce_sum_d (\<lambda>p. p) mediumTerm) (length_d mediumTerm)
             in if mediumTermAvg = Fin 0 then Fin 0
                else
                  let trend = fdiv (fsub shortTermAvg mediumTermAvg) mediumTermAvg
                  in Math_max (Fin (- 1)) (Math_min (Fin 1) (fmul trend (Fin 10))))"

text \<open>
  Lines 87 to 104: the weights are the doubles of the literals \<open>0.4\<close>, \<open>0.35\<close>
  and \<open>0.25\<close>; the sum associates to the left.  The value is the local
  constant \<open>index\<close>, before it is rounded for the result.
\<close>

definition scaledIndex_d :: "number \<Rightarrow> number \<Rightarrow> number \<Rightarrow> number" where
  "scaledIndex_d lz pz trend =
     (let normalizedLiquidity = fdiv (Math_max (Fin (- 2)) (Math_min (Fin 2) lz)) (Fin 2);
          normalizedPMI = fdiv (Math_max (Fin (- 2)) (Math_min (Fin 2) pz)) (Fin 2);
          rawIndex = fadd (fadd (fmul (rd (4 / 10)) normalizedLiquidity)
                                (fmul (rd (35 / 100)) normalizedPMI))
                          (fmul (rd (25 / 100)) trend)
      in fmul (fdiv (fadd rawIndex (Fin 1)) (Fin 2)) (Fin 100))"

text \<open>Lines 107 to 118, and \<open>Math.round(index * 100) / 100\<close> of line 121.\<close>

definition classify_d :: "number \<Rightarrow> Interpretation" where
  "classify_d idx =
     (if fless idx (Fin 20) then very_bearish
      else if fless idx (Fin 40) then bearish
      else if fless idx (Fin 60) then neutral
      else if fless idx (Fin 80) then bullish
      else very_bullish)"

definition round2 :: "number \<Rightarrow> number" where
  "round2 idx = fdiv (Math_round_d (fmul idx (Fin 100))) (Fin 100)"

text \<open>Lines 57 to 128; \<open>now\<close> is the reading of the clock, as in the exact reading.\<close>

definition calculateBitcoinDirectionIndex_d ::
  "int \<Rightarrow> LiquidityData_d \<Rightarrow> number list \<Rightarrow> ISMPMIData_d \<Rightarrow> number list \<Rightarrow> BitcoinPrice_d
     \<Rightarrow> number list \<Rightarrow> BitcoinDirectionIndex_d" where
  "calculateBitcoinDirectionIndex_d now liq liquidityHistory pmi pmiHistory btcPrice btcPriceHistory =
     (let liquidityStats = calculateStats_d liquidityHistory;
          lz = calculateZScore_d (liquidity_d liq) (mean_d liquidityStats) (stdDev_d liquidityStats);
          pmiNormalized = fsub (pmi_value_d pmi) (Fin 50);
          pmiStats = calculateStats_d (map (\<lambda>p. fsub p (Fin 50)) pmiHistory);
          pz = calculateZScore_d pmiNormalized (mean_d pmiStats) (stdDev_d pmiStats);
          trend = calculateBTCTrend_d (price_d btcPrice) btcPriceHistory;
          idx = scaledIndex_d lz pz trend
      in \<lparr>index_d = round2 idx,
          liquidityZScore_d = lz,
          pmiZScore_d = pz,
          btcTrend_d = trend,
          timestamp_d = now,
          interp_d = classify_d idx\<rparr>)"

text \<open>Lines 133 to 161: \<open>denominator === 0\<close> is false of \<open>NaN\<close>.\<close>

definition corr_step_d :: "number list \<Rightarrow> number list \<Rightarrow> number \<Rightarrow> number
     \<Rightarrow> number \<times> number \<times> number \<Rightarrow> nat \<Rightarrow> number \<times> number \<times> number" where
  "corr_step_d indexValues priceValues indexMean priceMean acc i =
     (case acc of (numerator, indexVariance, priceVariance) \<Rightarrow>
        let indexDiff = fsub (indexValues ! i) indexMean;
            priceDiff = fsub (priceValues ! i) priceMean
        in (fadd numerator (fmul indexDiff priceDiff),
            fadd indexVariance (fmul indexDiff indexDiff),
            fadd priceVariance (fmul priceDiff priceDiff)))"

definition calculateCorrelation_d :: "number list \<Rightarrow> number list \<Rightarrow> number" where
  "calculateCorrelation_d indexValues priceValues =
     (if length indexValues \<noteq> length priceValues \<or> length indexValues < 2 then Fin 0
      else
        let n = length indexValues;
            indexMean = fdiv (reduce_sum_d (\<lambda>val. val) indexValues) (Fin (real n));
            priceMean = fdiv (reduce_sum_d (\<lambda>val. val) priceValues) (Fin (real n))
        in case foldl (corr_step_d indexValues priceValues indexMean priceMean)
                  (Fin 0, Fin 0, Fin 0) [0..<n] of
             (numerator, indexVariance, priceVariance) \<Rightarrow>
               let denominator = Math_sqrt (fmul indexVariance priceVariance)
               in if denominator = Fin 0 then Fin 0 else fdiv numerator denominator)"

text \<open>
  The index before rounding, recomputed from the z-scores and the trend that
  the result carries: the double that the local constant \<open>index\<close> of line 104
  holds.
\<close>

definition unroundedIndex_d :: "BitcoinDirectionIndex_d \<Rightarrow> number" where
  "unroundedIndex_d r = scaledIndex_d (liquidityZScore_d r) (pmiZScore_d r) (btcTrend_d r)"

section \<open>Example inputs\<close>

definition sample_price :: BitcoinPrice where
  "sample_price = \<lparr>price = 1, price_timestamp = 0, change24h = None\<rparr>"

definition neutral_liquidity :: LiquidityData where
  "neutral_liquidity = \<lparr>fedBalanceSheet = 7, tga = 1, rrp = 1, liquidity = 5,
     liquidity_date = ''2024-01-01''\<rparr>"

definition neutral_pmi :: ISMPMIData where
  "neutral_pmi = \<lparr>pmi_value = 50, pmi_date = ''2024-01-01'', pmi_change = None,
     pmi_note = None, pmi_source = None\<rparr>"

definition jan_feb :: "real \<Rightarrow> real \<Rightarrow> (string \<times> real) list" where
  "jan_feb A B = [(''2024-01-01'', A), (''2024-02-01'', B)]"

definition november_point :: PricePoint where
  "november_point = \<lparr>pp_timestamp = 1701302400000, pp_date = ''2023-11-30'', pp_price = 37000\<rparr>"

definition december_point :: PricePoint where
  "december_point = \<lparr>pp_timestamp = 1701388800000, pp_date = ''2023-12-01'', pp_price = 38000\<rparr>"

definition index_series :: "ChartDataPoint list" where
  "index_series =
     [\<lparr>cd_timestamp = - 172800000, cd_date = ''1969-12-30'', cd_price = 42000, cd_index = Some 60\<rparr>,
      \<lparr>cd_timestamp = 0, cd_date = ''1970-01-01'', cd_price = 43000, cd_index = Some 42\<rparr>,
      \<lparr>cd_timestamp = 90000000, cd_date = ''1970-01-02'', cd_price = 44000, cd_index = None\<rparr>]"

definition null_series :: "ChartDataPoint list" where
  "null_series =
     [\<lparr>cd_timestamp = 0, cd_date = ''1970-01-01'', cd_price = 43000, cd_index = None\<rparr>]"

definition exact_point :: PricePoint where
  "exact_point = \<lparr>pp_timestamp = 0, pp_date = ''1970-01-01'', pp_price = 43000\<rparr>"

definition near_point :: PricePoint where
  "near_point = \<lparr>pp_timestamp = 3600000, pp_date = ''1970-01-01'', pp_price = 43100\<rparr>"

definition late_point :: PricePoint where
  "late_point = \<lparr>pp_timestamp = 90000000, pp_date = ''1970-01-02'', pp_price = 44000\<rparr>"

text \<open>
  Inputs of the double reading.  \<open>huge\<close> is \<open>2 ^ 1023\<close>, about 8.99e307, and
  \<open>large\<close> is \<open>2 ^ 600\<close>: powers of two in the range of the finite doubles.
  A snapshot carries the one field that the calculation reads; for the
  liquidity the balance sheet is that value and the two deductions are 0.
  \<open>pmi_487\<close> is the double of the reading 48.7.
\<close>

definition huge :: real where
  "huge = 2 ^ 1023"

definition large :: real where
  "large = 2 ^ 600"

definition liquidity_snapshot :: "number \<Rightarrow> LiquidityData_d" where
  "liquidity_snapshot x =
     \<lparr>fedBalanceSheet_d = x, tga_d = Fin 0, rrp_d = Fin 0, liquidity_d = x,
      liquidity_date_d = ''2024-01-01''\<rparr>"

definition pmi_snapshot :: "number \<Rightarrow> ISMPMIData_d" where
  "pmi_snapshot v =
     \<lparr>pmi_value_d = v, pmi_date_d = ''2024-01-01'', pmi_change_d = None, pmi_note_d = None,
      pmi_source_d = None\<rparr>"

definition price_snapshot :: "number \<Rightarrow> BitcoinPrice_d" where
  "price_snapshot v = \<lparr>price_d = v, price_timestamp_d = 0, change24h_d = None\<rparr>"

definition pmi_487 :: number where
  "pmi_487 = rd (487 / 10)"

definition falling_prices :: "number list" where
  "falling_prices = [Fin 10, Fin 1, Fin 1, Fin 1, Fin 1, Fin 1, Fin 1, Fin 1]"

text \<open>
  Four results with empty liquidity and PMI histories: liquidity -0.0004 and
  PMI 48 on falling prices; liquidity -1.75 and PMI 50 on falling prices;
  liquidity -1 and PMI 50 without prices; liquidity 0 and PMI 50.5 without
  prices.
\<close>

definition rounded_up_result :: BitcoinDirectionIndex_d where
  "rounded_up_result =
     calculateBitcoinDirectionIndex_d 0 (liquidity_snapshot (rd (- (4 / 10000)))) []
       (pmi_snapshot (Fin 48)) [] (price_snapshot (Fin 1)) falling_prices"

definition below_20_result :: BitcoinDirectionIndex_d where
  "below_20_result =
     calculateBitcoinDirectionIndex_d 0 (liquidity_snapshot (Fin (- (7 / 4)))) []
       (pmi_snapshot (Fin 50)) [] (price_snapshot (Fin 1)) falling_prices"

definition exactly_40_result :: BitcoinDirectionIndex_d where
  "exactly_40_result =
     calculateBitcoinDirectionIndex_d 0 (liquidity_snapshot (Fin (- 1))) []
       (pmi_snapshot (Fin 50)) [] (price_snapshot (Fin 1)) []"

definition rounded_down_result :: BitcoinDirectionIndex_d where
  "rounded_down_result =
     calculateBitcoinDirectionIndex_d 0 (liquidity_snapshot (Fin 0)) []
       (pmi_snapshot (Fin (101 / 2))) [] (price_snapshot (Fin 1)) []"

section \<open>Properties of the statistics in exact arithmetic\<close>

lemma foldl_add_sum_list:
  "foldl (\<lambda>sum val. sum + f val) a vals = a + sum_list (map f vals)"
  for a :: real
  by (induction vals arbitrary: a) (simp_all add: add.assoc)

lemma reduce_sum_sum_list: "reduce_sum f vals = sum_list (map f vals)"
  by (simp add: reduce_sum_def foldl_add_sum_list)


lemma calculateStats_nonempty:
  "vals \<noteq> [] \<Longrightarrow> calculateStats vals =
     \<lparr>mean = arithmetic_mean vals,
      stdDev = (if population_stddev vals = 0 then 1 else population_stddev vals)\<rparr>"
  by (simp add: calculateStats_def Let_def reduce_sum_sum_list arithmetic_mean_def
      population_stddev_def)

lemma calculateStats_empty: "calculateStats [] = \<lparr>mean = 0, stdDev = 1\<rparr>"
  by (simp add: calculateStats_def)

lemma result_fields:
  "index (calculateBitcoinDirectionIndex now l lh p ph b bh) =
     Math_round (scaledIndex (liquidityZScore (calculateBitcoinDirectionIndex now l lh p ph b bh))
        (pmiZScore (calculateBitcoinDirectionIndex now l lh p ph b bh))
        (btcTrend (calculateBitcoinDirectionIndex now l lh p ph b bh)) * 100) / 100"
  "interp (calculateBitcoinDirectionIndex now l lh p ph b bh) =
     classify (scaledIndex (liquidityZScore (calculateBitcoinDirectionIndex now l lh p ph b bh))
        (pmiZScore (calculateBitcoinDirectionIndex now l lh p ph b bh))
        (btcTrend (calculateBitcoinDirectionIndex now l lh p ph b bh)))"
  "btcTrend (calculateBitcoinDirectionIndex now l lh p ph b bh) = calculateBTCTrend (price b) bh"
  "liquidityZScore (calculateBitcoinDirectionIndex now l lh p ph b bh) =
     calculateZScore (liquidity l) (mean (calculateStats lh)) (stdDev (calculateStats lh))"
  "pmiZScore (calculateBitcoinDirectionIndex now l lh p ph b bh) =
     calculateZScore (pmi_value p - 50) (mean (calculateStats (map (\<lambda>p. p - 50) ph)))
       (stdDev (calculateStats (map (\<lambda>p. p - 50) ph)))"
  "timestamp (calculateBitcoinDirectionIndex now l lh p ph b bh) = now"
  by (simp_all add: calculateBitcoinDirectionIndex_def Let_def)

lemma sum_list_shift: "sum_list (map (\<lambda>p. p - c) xs) = sum_list xs - c * real (length xs)"
  for c :: real
  by (induction xs) (simp_all add: algebra_simps)

lemma arithmetic_mean_shift:
  "xs \<noteq> [] \<Longrightarrow> arithmetic_mean (map (\<lambda>p. p - c) xs) = arithmetic_mean xs - c"
  by (simp add: arithmetic_mean_def sum_list_shift diff_divide_distrib)

lemma population_stddev_shift:
  "xs \<noteq> [] \<Longrightarrow> population_stddev (map (\<lambda>p. p - c) xs) = population_stddev xs"
  by (simp add: population_stddev_def arithmetic_mean_shift comp_def)

lemma calculateStats_shift:
  "xs \<noteq> [] \<Longrightarrow> calculateStats (map (\<lambda>p. p - c) xs) =
     \<lparr>mean = mean (calculateStats xs) - c, stdDev = stdDev (calculateStats xs)\<rparr>"
  by (simp add: calculateStats_nonempty arithmetic_mean_shift population_stddev_shift)

section \<open>Properties of the correlation\<close>











section \<open>Properties of the forward-fill join\<close>

lemma scanPMI_take:
  "n \<le> length es \<Longrightarrow>
   scanPMI es t n = (case forward_fill (take n es) t of None \<Rightarrow> 50 | Some (d, v) \<Rightarrow> v)"
proof (induction n)
  case 0
  then show ?case by (simp add: forward_fill_def)
next
  case (Suc n)
  then have "take (Suc n) es = take n es @ [es ! n]" by (simp add: take_Suc_conv_app_nth)
  with Suc show ?case by (simp add: forward_fill_def split: prod.splits)
qed

lemma scanLiquidity_take:
  "n \<le> length es \<Longrightarrow>
   scanLiquidity es t n =
     (case forward_fill (take n es) t of None \<Rightarrow> (0, '''') | Some (d, v) \<Rightarrow> (v, d))"
proof (induction n)
  case 0
  then show ?case by (simp add: forward_fill_def)
next
  case (Suc n)
  then have "take (Suc n) es = take n es @ [es ! n]" by (simp add: take_Suc_conv_app_nth)
  with Suc show ?case by (simp add: forward_fill_def split: prod.splits)
qed

lemma forward_fill_None:
  "forward_fill es t = None \<longleftrightarrow> (\<forall>(d, v) \<in> set es. \<not> d \<le> t)"
  by (auto simp: forward_fill_def find_None_iff)

lemma find_Some_member: "find P xs = Some x \<Longrightarrow> x \<in> set xs \<and> P x"
  by (induction xs) (auto split: if_splits)

lemma forward_fill_Some:
  "forward_fill es t = Some (d, v) \<Longrightarrow> (d, v) \<in> set es \<and> d \<le> t"
  using find_Some_member [of "\<lambda>(date, val). date \<le> t" "rev es" "(d, v)"]
  by (simp add: forward_fill_def)

lemma forward_fill_sorted_latest:
  assumes "sorted (map fst es)" "forward_fill es t = Some (d, v)" "(d', v') \<in> set es" "d' \<le> t"
  shows "d' \<le> d"
  using assms
proof (induction es rule: rev_induct)
  case Nil
  then show ?case by simp
next
  case (snoc e es)
  obtain de ve where e: "e = (de, ve)" by (cases e)
  from snoc.prems(1) have s: "sorted (map fst es)" and le: "\<forall>x \<in> set es. fst x \<le> de"
    by (auto simp: e sorted_append)
  show ?case
  proof (cases "de \<le> t")
    case True
    with snoc.prems(2) have "d = de" by (simp add: forward_fill_def e)
    with snoc.prems(3) le show ?thesis by (auto simp: e)
  next
    case False
    with snoc.prems(2) have f: "forward_fill es t = Some (d, v)" by (simp add: forward_fill_def e)
    from False snoc.prems(3,4) have "(d', v') \<in> set es" by (auto simp: e)
    with snoc.IH s f snoc.prems(4) show ?thesis by blast
  qed
qed

lemma historyPoint_skipped:
  "forward_fill liquidityEntries (pp_date btcPoint) = None \<Longrightarrow>
   historyPoint now fedData tgaData rrpData liquidityEntries liquidityHistory pmiEntries
       pmiHistoryValues btcPriceHistory btcPoint = None"
  by (simp add: historyPoint_def Let_def findLiquidity_def scanLiquidity_take)

text \<open>
  C4.  Each of the two backward scans returns the value of the first entry,
  from the most recent to the oldest, whose date is at or before the target; in
  a date-sorted series that entry has the latest such date.  When no entry is
  dated at or before the target, the PMI is the default 50 and the liquidity
  scan leaves the empty date, on which the handler skips the price point.  For
  the series with A on 2024-01-01 and B on 2024-02-01, the query 2024-01-15
  gives A, the query 2023-12-01 finds nothing, and the query 2024-03-01 gives B.
\<close>

theorem forward_fill_join:
  "findPMI entries target =
     (case forward_fill entries target of None \<Rightarrow> 50 | Some (d, v) \<Rightarrow> v) \<and>
   findLiquidity entries target =
     (case forward_fill entries target of None \<Rightarrow> (0, '''') | Some (d, v) \<Rightarrow> (v, d)) \<and>
   (forward_fill entries target = None \<longleftrightarrow> (\<forall>(d, v) \<in> set entries. \<not> d \<le> target)) \<and>
   (\<forall>d v. forward_fill entries target = Some (d, v) \<longrightarrow>
      (d, v) \<in> set entries \<and> d \<le> target \<and>
      (sorted (map fst entries) \<longrightarrow> (\<forall>(d', v') \<in> set entries. d' \<le> target \<longrightarrow> d' \<le> d))) \<and>
   (forward_fill entries (pp_date btcPoint) = None \<longrightarrow>
      historyPoint now fedData tgaData rrpData entries liquidityHistory pmiEntries
        pmiHistoryValues btcPriceHistory btcPoint = None) \<and>
   findLiquidity (jan_feb A B) ''2024-01-15'' = (A, ''2024-01-01'') \<and>
   findPMI (jan_feb A B) ''2024-01-15'' = A \<and>
   forward_fill (jan_feb A B) ''2023-12-01'' = None \<and>
   findLiquidity (jan_feb A B) ''2023-12-01'' = (0, '''') \<and>
   findPMI (jan_feb A B) ''2023-12-01'' = 50 \<and>
   findLiquidity (jan_feb A B) ''2024-03-01'' = (B, ''2024-02-01'') \<and>
   findPMI (jan_feb A B) ''2024-03-01'' = B"
proof -
  have 1: "findPMI entries target =
     (case forward_fill entries target of None \<Rightarrow> 50 | Some (d, v) \<Rightarrow> v)"
    by (simp add: findPMI_def scanPMI_take)
  have 2: "findLiquidity entries target =
     (case forward_fill entries target of None \<Rightarrow> (0, '''') | Some (d, v) \<Rightarrow> (v, d))"
    by (simp add: findLiquidity_def scanLiquidity_take)
  have 3: "forward_fill entries target = None \<longleftrightarrow> (\<forall>(d, v) \<in> set entries. \<not> d \<le> target)"
    by (rule forward_fill_None)
  have 4: "\<forall>d v. forward_fill entries target = Some (d, v) \<longrightarrow>
      (d, v) \<in> set entries \<and> d \<le> target \<and>
      (sorted (map fst entries) \<longrightarrow> (\<forall>(d', v') \<in> set entries. d' \<le> target \<longrightarrow> d' \<le> d))"
    using forward_fill_Some [of entries target] forward_fill_sorted_latest [of entries target]
    by blast
  have 5: "forward_fill entries (pp_date btcPoint) = None \<longrightarrow>
      historyPoint now fedData tgaData rrpData entries liquidityHistory pmiEntries
        pmiHistoryValues btcPriceHistory btcPoint = None"
    by (simp add: historyPoint_skipped)
  have 6: "findLiquidity (jan_feb A B) ''2024-01-15'' = (A, ''2024-01-01'') \<and>
     findPMI (jan_feb A B) ''2024-01-15'' = A \<and>
     forward_fill (jan_feb A B) ''2023-12-01'' = None \<and>
     findLiquidity (jan_feb A B) ''2023-12-01'' = (0, '''') \<and>
     findPMI (jan_feb A B) ''2023-12-01'' = 50 \<and>
     findLiquidity (jan_feb A B) ''2024-03-01'' = (B, ''2024-02-01'') \<and>
     findPMI (jan_feb A B) ''2024-03-01'' = B"
    by (simp add: findLiquidity_def findPMI_def jan_feb_def forward_fill_def numeral_2_eq_2)
  show ?thesis
    by (rule conjI [OF 1 conjI [OF 2 conjI [OF 3 conjI [OF 4 conjI [OF 5 6]]]]])
qed

theorem forward_fill_join_witness:
  "sorted (map fst (jan_feb 1 2)) \<and>
   forward_fill (jan_feb 1 2) ''2024-01-15'' = Some (''2024-01-01'', 1) \<and>
   findPMI (jan_feb 1 2) ''2024-01-15'' = 1 \<and>
   findLiquidity (jan_feb 1 2) ''2024-01-15'' = (1, ''2024-01-01'') \<and>
   forward_fill (jan_feb 1 2) ''2024-03-01'' = Some (''2024-02-01'', 2) \<and>
   (''2024-01-01'', 1) \<in> set (jan_feb 1 2) \<and> ''2024-01-01'' \<le> ''2024-03-01'' \<and>
   ''2024-01-01'' \<le> ''2024-02-01'' \<and>
   forward_fill (jan_feb 1 2) (pp_date december_point) = None \<and>
   findPMI (jan_feb 1 2) (pp_date december_point) = 50 \<and>
   historyPoint 0 [] [] [] (jan_feb 1 2) [1, 2] (jan_feb 49 51) [49, 51]
     [november_point, december_point] december_point = None"
proof -
  have s: "sorted (map fst (jan_feb 1 2))" by (simp add: jan_feb_def)
  have f: "forward_fill (jan_feb 1 2) ''2024-01-15'' = Some (''2024-01-01'', 1)"
    by (simp add: jan_feb_def forward_fill_def)
  have n: "forward_fill (jan_feb 1 2) (pp_date december_point) = None"
    by (simp add: jan_feb_def forward_fill_def december_point_def)
  note t1 = forward_fill_join [of "jan_feb 1 2" "''2024-01-15''" december_point 0 "[]" "[]" "[]"
      "[1, 2]" "jan_feb 49 51" "[49, 51]" "[november_point, december_point]" 1 2]
  note t2 = forward_fill_join [of "jan_feb 1 2" "pp_date december_point" december_point 0 "[]" "[]"
      "[]" "[1, 2]" "jan_feb 49 51" "[49, 51]" "[november_point, december_point]" 1 2]
  have a: "findPMI (jan_feb 1 2) ''2024-01-15'' = 1"
    using t1 [THEN conjunct1] by (simp add: f)
  have b: "findLiquidity (jan_feb 1 2) ''2024-01-15'' = (1, ''2024-01-01'')"
    using t1 [THEN conjunct2, THEN conjunct1] by (simp add: f)
  note t3 = forward_fill_join [of "jan_feb 1 2" "''2024-03-01''" december_point 0 "[]" "[]" "[]"
      "[1, 2]" "jan_feb 49 51" "[49, 51]" "[november_point, december_point]" 1 2]
  have f3: "forward_fill (jan_feb 1 2) ''2024-03-01'' = Some (''2024-02-01'', 2)"
    by (simp add: jan_feb_def forward_fill_def)
  have j: "(''2024-01-01'', 1) \<in> set (jan_feb 1 2)" by (simp add: jan_feb_def)
  have k: "''2024-01-01'' \<le> ''2024-03-01''" by simp
  have c: "''2024-01-01'' \<le> ''2024-02-01''"
    using t3 [THEN conjunct2, THEN conjunct2, THEN conjunct2, THEN conjunct1] f3 s j k by blast
  have d: "findPMI (jan_feb 1 2) (pp_date december_point) = 50"
    using t2 [THEN conjunct1] by (simp add: n)
  have e: "historyPoint 0 [] [] [] (jan_feb 1 2) [1, 2] (jan_feb 49 51) [49, 51]
     [november_point, december_point] december_point = None"
    using t2 [THEN conjunct2, THEN conjunct2, THEN conjunct2, THEN conjunct2, THEN conjunct1] n
    by blast
  from s f a b f3 j k c n d e show ?thesis by (intro conjI)
qed

section \<open>Properties of the merge for the chart\<close>

lemma map_of_map_set: "map_of (map_set k v m) = (map_of m)(k \<mapsto> v)"
  by (induction m) (auto simp: fun_eq_iff)

lemma keys_map_set: "fst ` set (map_set k v m) = insert k (fst ` set m)"
proof (induction m)
  case Nil
  show ?case by simp
next
  case (Cons a m)
  obtain k' v' where a: "a = (k', v')" by (cases a)
  show ?case
  proof (cases "k' = k")
    case True
    then show ?thesis by (simp add: a)
  next
    case False
    with Cons show ?thesis by (simp add: a insert_commute)
  qed
qed

lemma distinct_map_set: "distinct (map fst m) \<Longrightarrow> distinct (map fst (map_set k v m))"
proof (induction m)
  case Nil
  then show ?case by simp
next
  case (Cons a m)
  obtain k' v' where a: "a = (k', v')" by (cases a)
  from Cons show ?case
    using keys_map_set [of k v m] by (auto simp: a)
qed

lemma buildIndexMap_snoc: "buildIndexMap (idx @ [p]) = storeIndex (buildIndexMap idx) p"
  by (simp add: buildIndexMap_def)

lemma observed_at_snoc:
  "observed_at (idx @ [p]) t =
     (case cd_index p of
        None \<Rightarrow> observed_at idx t
      | Some i \<Rightarrow> if t = cd_timestamp p then Some i else observed_at idx t)"
  by (simp add: observed_at_def valid_observations_def map_filter_def split: option.splits)

lemma distinct_buildIndexMap: "distinct (map fst (buildIndexMap idx))"
proof (induction idx rule: rev_induct)
  case Nil
  then show ?case by (simp add: buildIndexMap_def)
next
  case (snoc p idx)
  then show ?case
    by (simp add: buildIndexMap_snoc storeIndex_def distinct_map_set split: option.splits)
qed

lemma map_of_buildIndexMap:
  "map_of (buildIndexMap idx) t =
     map_option (\<lambda>i. \<lparr>ie_index = i, ie_timestamp = t\<rparr>) (observed_at idx t)"
proof (induction idx rule: rev_induct)
  case Nil
  then show ?case by (simp add: buildIndexMap_def observed_at_def valid_observations_def map_filter_def)
next
  case (snoc p idx)
  then show ?case
    by (simp add: buildIndexMap_snoc storeIndex_def observed_at_snoc map_of_map_set
        split: option.splits)
qed

lemma entry_observed:
  assumes "(s, e) \<in> set (buildIndexMap idx)"
  shows "observed_at idx s = Some (ie_index e)"
proof -
  from assms have "map_of (buildIndexMap idx) s = Some e"
    by (simp add: distinct_buildIndexMap)
  then show ?thesis by (auto simp: map_of_buildIndexMap)
qed

lemma observed_entry:
  assumes "observed_at idx s = Some i"
  shows "\<exists>e. (s, e) \<in> set (buildIndexMap idx) \<and> ie_index e = i"
proof -
  from assms have "map_of (buildIndexMap idx) s = Some \<lparr>ie_index = i, ie_timestamp = s\<rparr>"
    by (simp add: map_of_buildIndexMap)
  then have "(s, \<lparr>ie_index = i, ie_timestamp = s\<rparr>) \<in> set (buildIndexMap idx)"
    by (rule map_of_SomeD)
  then show ?thesis by force
qed

lemma buildIndexMap_empty_iff:
  "buildIndexMap idx = [] \<longleftrightarrow> (\<forall>s. observed_at idx s = None)"
proof
  assume "buildIndexMap idx = []"
  then have "map_of (buildIndexMap idx) s = None" for s by simp
  then show "\<forall>s. observed_at idx s = None" by (simp add: map_of_buildIndexMap)
next
  assume a: "\<forall>s. observed_at idx s = None"
  show "buildIndexMap idx = []"
  proof (cases "buildIndexMap idx")
    case Nil
    then show ?thesis .
  next
    case (Cons x xs)
    obtain s e where "x = (s, e)" by (cases x)
    with Cons have "(s, e) \<in> set (buildIndexMap idx)" by simp
    then have "observed_at idx s = Some (ie_index e)" by (rule entry_observed)
    with a show ?thesis by simp
  qed
qed

lemma closest_loop:
  "(foldl (closest_step t) (None, None) m = (None, None) \<and>
      (\<forall>(s, e) \<in> set m. \<not> \<bar>t - s\<bar> < 86400000)) \<or>
   (\<exists>s e. (s, e) \<in> set m \<and> \<bar>t - s\<bar> < 86400000 \<and>
      foldl (closest_step t) (None, None) m = (Some \<bar>t - s\<bar>, Some (ie_index e)) \<and>
      (\<forall>(s', e') \<in> set m. \<bar>t - s\<bar> \<le> \<bar>t - s'\<bar>))"
proof (induction m rule: rev_induct)
  case Nil
  then show ?case by simp
next
  case (snoc x m)
  obtain s' e' where x: "x = (s', e')" by (cases x)
  from snoc show ?case
  proof
    assume a: "foldl (closest_step t) (None, None) m = (None, None) \<and>
      (\<forall>(s, e) \<in> set m. \<not> \<bar>t - s\<bar> < 86400000)"
    show ?thesis
    proof (cases "\<bar>t - s'\<bar> < 86400000")
      case True
      with a have "foldl (closest_step t) (None, None) (m @ [x]) = (Some \<bar>t - s'\<bar>, Some (ie_index e'))"
        by (simp add: x closest_step_def)
      moreover from a True have "\<forall>(s'', e'') \<in> set (m @ [x]). \<bar>t - s'\<bar> \<le> \<bar>t - s''\<bar>"
        by (auto simp: x)
      ultimately show ?thesis using True by (intro disjI2 exI [of _ s'] exI [of _ e']) (simp add: x)
    next
      case False
      with a have "foldl (closest_step t) (None, None) (m @ [x]) = (None, None)"
        by (simp add: x closest_step_def)
      moreover from a False have "\<forall>(s, e) \<in> set (m @ [x]). \<not> \<bar>t - s\<bar> < 86400000"
        by (auto simp: x)
      ultimately show ?thesis by blast
    qed
  next
    assume "\<exists>s e. (s, e) \<in> set m \<and> \<bar>t - s\<bar> < 86400000 \<and>
      foldl (closest_step t) (None, None) m = (Some \<bar>t - s\<bar>, Some (ie_index e)) \<and>
      (\<forall>(s', e') \<in> set m. \<bar>t - s\<bar> \<le> \<bar>t - s'\<bar>)"
    then obtain s e where m: "(s, e) \<in> set m" and w: "\<bar>t - s\<bar> < 86400000"
      and f: "foldl (closest_step t) (None, None) m = (Some \<bar>t - s\<bar>, Some (ie_index e))"
      and c: "\<forall>(s', e') \<in> set m. \<bar>t - s\<bar> \<le> \<bar>t - s'\<bar>"
      by blast
    show ?thesis
    proof (cases "\<bar>t - s'\<bar> < \<bar>t - s\<bar>")
      case True
      with w f have "foldl (closest_step t) (None, None) (m @ [x]) = (Some \<bar>t - s'\<bar>, Some (ie_index e'))"
        by (simp add: x closest_step_def)
      moreover from c True have "\<forall>(s'', e'') \<in> set (m @ [x]). \<bar>t - s'\<bar> \<le> \<bar>t - s''\<bar>"
        by (auto simp: x)
      moreover from True w have "\<bar>t - s'\<bar> < 86400000" by simp
      ultimately show ?thesis by (intro disjI2 exI [of _ s'] exI [of _ e']) (simp add: x)
    next
      case False
      with f have "foldl (closest_step t) (None, None) (m @ [x]) = (Some \<bar>t - s\<bar>, Some (ie_index e))"
        by (simp add: x closest_step_def)
      moreover from c False have "\<forall>(s'', e'') \<in> set (m @ [x]). \<bar>t - s\<bar> \<le> \<bar>t - s''\<bar>"
        by (auto simp: x)
      ultimately show ?thesis using m w by (intro disjI2 exI [of _ s] exI [of _ e]) simp
    qed
  qed
qed

lemma within_tolerance_code: "within_tolerance t s \<longleftrightarrow> \<bar>t - s\<bar> < 86400000"
  by (simp add: within_tolerance_def tolerance_ms_def)

lemma mergePoint_exact:
  "observed_at idx (pp_timestamp p) = Some i \<Longrightarrow>
   mergePoint (buildIndexMap idx) p = Some (merged p i)"
  by (simp add: mergePoint_def matchIndex_def map_of_buildIndexMap merged_def Let_def)

lemma matchIndex_inexact:
  "observed_at idx t = None \<Longrightarrow>
   matchIndex (buildIndexMap idx) t = snd (foldl (closest_step t) (None, None) (buildIndexMap idx))"
  by (simp add: matchIndex_def map_of_buildIndexMap)

lemma mergePoint_none_close:
  assumes "\<forall>s. observed_at idx s \<noteq> None \<longrightarrow> \<not> within_tolerance (pp_timestamp p) s"
  shows "mergePoint (buildIndexMap idx) p =
     (if buildIndexMap idx = [] then Some (merged p 50) else None)"
proof -
  let ?t = "pp_timestamp p" and ?m = "buildIndexMap idx"
  have "within_tolerance ?t ?t" by (simp add: within_tolerance_code)
  with assms have n: "observed_at idx ?t = None" by blast
  have "\<not> (\<exists>s e. (s, e) \<in> set ?m \<and> \<bar>?t - s\<bar> < 86400000)"
  proof
    assume "\<exists>s e. (s, e) \<in> set ?m \<and> \<bar>?t - s\<bar> < 86400000"
    then obtain s e where "(s, e) \<in> set ?m" and w: "\<bar>?t - s\<bar> < 86400000" by blast
    then have "observed_at idx s \<noteq> None" by (simp add: entry_observed)
    with assms w show False by (simp add: within_tolerance_code)
  qed
  with closest_loop [of ?t ?m] have "foldl (closest_step ?t) (None, None) ?m = (None, None)"
    by blast
  with n have "matchIndex ?m ?t = None" by (simp add: matchIndex_inexact)
  then show ?thesis by (simp add: mergePoint_def Let_def merged_def)
qed

lemma mergePoint_closest:
  assumes n: "observed_at idx (pp_timestamp p) = None"
    and c: "\<exists>s. observed_at idx s \<noteq> None \<and> within_tolerance (pp_timestamp p) s"
  shows "\<exists>s i. observed_at idx s = Some i \<and> within_tolerance (pp_timestamp p) s \<and>
     (\<forall>s'. observed_at idx s' \<noteq> None \<longrightarrow> \<bar>pp_timestamp p - s\<bar> \<le> \<bar>pp_timestamp p - s'\<bar>) \<and>
     mergePoint (buildIndexMap idx) p = Some (merged p i)"
proof -
  let ?t = "pp_timestamp p" and ?m = "buildIndexMap idx"
  from c obtain s0 i0 where "observed_at idx s0 = Some i0" and w0: "within_tolerance ?t s0"
    by auto
  then obtain e0 where "(s0, e0) \<in> set ?m" using observed_entry by blast
  with w0 have "\<not> (\<forall>(s, e) \<in> set ?m. \<not> \<bar>?t - s\<bar> < 86400000)"
    by (auto simp: within_tolerance_code)
  with closest_loop [of ?t ?m] obtain s e where m: "(s, e) \<in> set ?m"
    and w: "\<bar>?t - s\<bar> < 86400000"
    and f: "foldl (closest_step ?t) (None, None) ?m = (Some \<bar>?t - s\<bar>, Some (ie_index e))"
    and least: "\<forall>(s', e') \<in> set ?m. \<bar>?t - s\<bar> \<le> \<bar>?t - s'\<bar>"
    by blast
  from m have o: "observed_at idx s = Some (ie_index e)" by (rule entry_observed)
  have l: "\<bar>?t - s\<bar> \<le> \<bar>?t - s'\<bar>" if "observed_at idx s' \<noteq> None" for s'
  proof -
    from that obtain i' where "observed_at idx s' = Some i'" by blast
    then obtain e' where "(s', e') \<in> set ?m" using observed_entry by blast
    with least show ?thesis by blast
  qed
  from n f have "matchIndex ?m ?t = Some (ie_index e)" by (simp add: matchIndex_inexact)
  then have "mergePoint ?m p = Some (merged p (ie_index e))"
    by (simp add: mergePoint_def Let_def merged_def)
  with o w l show ?thesis by (auto simp: within_tolerance_code)
qed

lemma set_map_filter: "set (List.map_filter f xs) = {c. \<exists>q \<in> set xs. f q = Some c}"
  by (induction xs) (auto split: option.splits)

lemma set_mergeChartData:
  "set (mergeChartData btcData idx) =
     {c. \<exists>q \<in> set btcData. mergePoint (buildIndexMap idx) q = Some c}"
  by (simp add: mergeChartData_def set_map_filter)

lemma sorted_mergeChartData: "sorted (map cd_timestamp (mergeChartData btcData idx))"
  by (simp add: mergeChartData_def)

lemma mergeChartData_no_index:
  assumes "\<forall>s. observed_at idx s = None"
  shows "mergeChartData btcData idx = sort_key cd_timestamp (map (\<lambda>q. merged q 50) btcData)"
proof -
  from assms have e: "buildIndexMap idx = []" by (simp add: buildIndexMap_empty_iff)
  have "mergePoint [] q = Some (merged q 50)" for q
    by (simp add: mergePoint_def matchIndex_def Let_def merged_def)
  then have "List.map_filter (mergePoint []) btcData = map (\<lambda>q. merged q 50) btcData"
    by (simp add: map_filter_def comp_def)
  then show ?thesis by (simp add: mergeChartData_def e)
qed

lemma observed_index_series:
  "observed_at index_series s =
     (if s = 0 then Some 42 else if s = - 172800000 then Some 60 else None)"
  by (simp add: observed_at_def valid_observations_def index_series_def)

lemma observed_null_series: "observed_at null_series s = None"
  by (simp add: observed_at_def valid_observations_def null_series_def)

text \<open>
  C5, as the code has it.  Only valid index observations take part (a point
  whose index is null is never stored).  A price point whose timestamp carries
  a valid observation is merged with it.  Otherwise, if some valid observation
  lies less than 24 hours away, the point is merged with an observation at the
  least distance.  If valid observations exist but none lies less than 24 hours
  away, the point is dropped.  If there is no valid observation at all, every
  price point is kept and merged with 50.  The merged points are exactly the
  price points that are not dropped, sorted by timestamp.
\<close>

theorem nearest_within_tolerance_join:
  "(\<forall>i. observed_at indexData (pp_timestamp p) = Some i \<longrightarrow>
      mergePoint (buildIndexMap indexData) p = Some (merged p i)) \<and>
   (observed_at indexData (pp_timestamp p) = None \<and>
    (\<exists>s. observed_at indexData s \<noteq> None \<and> within_tolerance (pp_timestamp p) s) \<longrightarrow>
      (\<exists>s i. observed_at indexData s = Some i \<and> within_tolerance (pp_timestamp p) s \<and>
         (\<forall>s'. observed_at indexData s' \<noteq> None \<longrightarrow>
            \<bar>pp_timestamp p - s\<bar> \<le> \<bar>pp_timestamp p - s'\<bar>) \<and>
         mergePoint (buildIndexMap indexData) p = Some (merged p i))) \<and>
   ((\<exists>s. observed_at indexData s \<noteq> None) \<and>
    (\<forall>s. observed_at indexData s \<noteq> None \<longrightarrow> \<not> within_tolerance (pp_timestamp p) s) \<longrightarrow>
      mergePoint (buildIndexMap indexData) p = None) \<and>
   ((\<forall>s. observed_at indexData s = None) \<longrightarrow>
      mergePoint (buildIndexMap indexData) p = Some (merged p 50) \<and>
      mergeChartData btcData indexData =
        sort_key cd_timestamp (map (\<lambda>q. merged q 50) btcData)) \<and>
   set (mergeChartData btcData indexData) =
     {c. \<exists>q \<in> set btcData. mergePoint (buildIndexMap indexData) q = Some c} \<and>
   sorted (map cd_timestamp (mergeChartData btcData indexData))"
proof -
  let ?m = "buildIndexMap indexData"
  have 1: "\<forall>i. observed_at indexData (pp_timestamp p) = Some i \<longrightarrow>
      mergePoint ?m p = Some (merged p i)"
    by (simp add: mergePoint_exact)
  have 2: "observed_at indexData (pp_timestamp p) = None \<and>
    (\<exists>s. observed_at indexData s \<noteq> None \<and> within_tolerance (pp_timestamp p) s) \<longrightarrow>
      (\<exists>s i. observed_at indexData s = Some i \<and> within_tolerance (pp_timestamp p) s \<and>
         (\<forall>s'. observed_at indexData s' \<noteq> None \<longrightarrow>
            \<bar>pp_timestamp p - s\<bar> \<le> \<bar>pp_timestamp p - s'\<bar>) \<and>
         mergePoint ?m p = Some (merged p i))"
    using mergePoint_closest [of indexData p] by blast
  have 3: "(\<exists>s. observed_at indexData s \<noteq> None) \<and>
    (\<forall>s. observed_at indexData s \<noteq> None \<longrightarrow> \<not> within_tolerance (pp_timestamp p) s) \<longrightarrow>
      mergePoint ?m p = None"
  proof (intro impI, elim conjE)
    assume e: "\<exists>s. observed_at indexData s \<noteq> None"
      and a: "\<forall>s. observed_at indexData s \<noteq> None \<longrightarrow> \<not> within_tolerance (pp_timestamp p) s"
    from e have "?m \<noteq> []" by (simp add: buildIndexMap_empty_iff)
    with mergePoint_none_close [OF a] show "mergePoint ?m p = None" by simp
  qed
  have 4: "(\<forall>s. observed_at indexData s = None) \<longrightarrow>
      mergePoint ?m p = Some (merged p 50) \<and>
      mergeChartData btcData indexData =
        sort_key cd_timestamp (map (\<lambda>q. merged q 50) btcData)"
  proof
    assume a: "\<forall>s. observed_at indexData s = None"
    then have "?m = []" by (simp add: buildIndexMap_empty_iff)
    moreover from a have "\<forall>s. observed_at indexData s \<noteq> None \<longrightarrow>
        \<not> within_tolerance (pp_timestamp p) s" by simp
    ultimately have "mergePoint ?m p = Some (merged p 50)"
      using mergePoint_none_close [of indexData p] by simp
    with a show "mergePoint ?m p = Some (merged p 50) \<and>
      mergeChartData btcData indexData =
        sort_key cd_timestamp (map (\<lambda>q. merged q 50) btcData)"
      by (simp add: mergeChartData_no_index)
  qed
  have 5: "set (mergeChartData btcData indexData) =
     {c. \<exists>q \<in> set btcData. mergePoint ?m q = Some c}"
    by (rule set_mergeChartData)
  have 6: "sorted (map cd_timestamp (mergeChartData btcData indexData))"
    by (rule sorted_mergeChartData)
  show ?thesis
    by (rule conjI [OF 1 conjI [OF 2 conjI [OF 3 conjI [OF 4 conjI [OF 5 6]]]]])
qed

text \<open>
  An index series that is not empty, whose only point is 25 hours before the
  price point and has a null index: the price point is kept, with index 50.
\<close>

theorem null_index_counterexample:
  "null_series \<noteq> [] \<and>
   \<not> within_tolerance (pp_timestamp late_point) (cd_timestamp (hd null_series)) \<and>
   mergeChartData [late_point] null_series = [merged late_point 50]"
  by (simp add: null_series_def late_point_def within_tolerance_def tolerance_ms_def
      mergeChartData_def buildIndexMap_def storeIndex_def mergePoint_def matchIndex_def
      merged_def)

theorem nearest_within_tolerance_join_witness:
  "observed_at index_series (pp_timestamp exact_point) = Some 42 \<and>
   mergePoint (buildIndexMap index_series) exact_point = Some (merged exact_point 42) \<and>
   observed_at index_series (pp_timestamp near_point) = None \<and>
   within_tolerance (pp_timestamp near_point) 0 \<and>
   (\<exists>i. mergePoint (buildIndexMap index_series) near_point = Some (merged near_point i)) \<and>
   \<not> within_tolerance (pp_timestamp late_point) 0 \<and>
   \<not> within_tolerance (pp_timestamp late_point) (- 172800000) \<and>
   mergePoint (buildIndexMap index_series) late_point = None \<and>
   (\<forall>s. observed_at null_series s = None) \<and>
   mergePoint (buildIndexMap null_series) late_point = Some (merged late_point 50) \<and>
   set (mergeChartData [near_point, late_point, exact_point] index_series) =
     {merged exact_point 42, merged near_point 42}"
proof -
  note t1 = nearest_within_tolerance_join [of index_series exact_point "[near_point, late_point, exact_point]"]
  note t2 = nearest_within_tolerance_join [of index_series near_point "[]"]
  note t3 = nearest_within_tolerance_join [of index_series late_point "[]"]
  note t4 = nearest_within_tolerance_join [of null_series late_point "[]"]
  have o1: "observed_at index_series (pp_timestamp exact_point) = Some 42"
    by (simp add: observed_index_series exact_point_def)
  have m1: "mergePoint (buildIndexMap index_series) exact_point = Some (merged exact_point 42)"
    using t1 [THEN conjunct1] o1 by blast
  have o2: "observed_at index_series (pp_timestamp near_point) = None"
    by (simp add: observed_index_series near_point_def)
  have w2: "within_tolerance (pp_timestamp near_point) 0"
    by (simp add: within_tolerance_def tolerance_ms_def near_point_def)
  have "observed_at index_series 0 \<noteq> None" by (simp add: observed_index_series)
  with o2 w2 have m2: "\<exists>i. mergePoint (buildIndexMap index_series) near_point = Some (merged near_point i)"
    using t2 [THEN conjunct2, THEN conjunct1] by blast
  have o3: "\<forall>s. observed_at index_series s \<noteq> None \<longrightarrow> \<not> within_tolerance (pp_timestamp late_point) s"
    by (simp add: observed_index_series within_tolerance_def tolerance_ms_def late_point_def)
  have "\<exists>s. observed_at index_series s \<noteq> None"
    by (rule exI [of _ 0]) (simp add: observed_index_series)
  with o3 have m3: "mergePoint (buildIndexMap index_series) late_point = None"
    using t3 [THEN conjunct2, THEN conjunct2, THEN conjunct1] by blast
  have o4: "\<forall>s. observed_at null_series s = None" by (simp add: observed_null_series)
  then have m4: "mergePoint (buildIndexMap null_series) late_point = Some (merged late_point 50)"
    using t4 [THEN conjunct2, THEN conjunct2, THEN conjunct2, THEN conjunct1] by blast
  have n2: "mergePoint (buildIndexMap index_series) near_point = Some (merged near_point 42)"
    by (simp add: index_series_def near_point_def buildIndexMap_def storeIndex_def mergePoint_def
        matchIndex_def closest_step_def merged_def)
  have s: "set (mergeChartData [near_point, late_point, exact_point] index_series) =
     {merged exact_point 42, merged near_point 42}"
    using t1 [THEN conjunct2, THEN conjunct2, THEN conjunct2, THEN conjunct2, THEN conjunct1]
    by (auto simp: m1 n2 m3)
  have w3: "\<not> within_tolerance (pp_timestamp late_point) 0"
    and w3': "\<not> within_tolerance (pp_timestamp late_point) (- 172800000)"
    by (simp_all add: within_tolerance_def tolerance_ms_def late_point_def)
  from o1 m1 o2 w2 m2 w3 w3' m3 o4 m4 s show ?thesis by (intro conjI)
qed

section \<open>Rounding to the nearest double\<close>

text \<open>
  Rounding to an integer with ties to even is monotone and odd, and leaves an
  integer as it is.
\<close>

lemma rte_of_int [simp]: "round_ties_even (of_int n) = n"
  by (simp add: round_ties_even_def)

lemma rte_bounds: "\<lfloor>q\<rfloor> \<le> round_ties_even q \<and> round_ties_even q \<le> \<lfloor>q\<rfloor> + 1"
  by (simp add: round_ties_even_def Let_def)

lemma rte_mono: "q \<le> q' \<Longrightarrow> round_ties_even q \<le> round_ties_even q'"
proof -
  assume le: "q \<le> q'"
  then have f: "\<lfloor>q\<rfloor> \<le> \<lfloor>q'\<rfloor>" by (rule floor_mono)
  show ?thesis
  proof (cases "\<lfloor>q\<rfloor> = \<lfloor>q'\<rfloor>")
    case True
    with le show ?thesis by (auto simp: round_ties_even_def Let_def)
  next
    case False
    with f have "\<lfloor>q\<rfloor> + 1 \<le> \<lfloor>q'\<rfloor>" by simp
    with rte_bounds [of q] rte_bounds [of q'] show ?thesis by linarith
  qed
qed

lemma rte_minus: "round_ties_even (- q) = - round_ties_even q"
proof (cases "q = of_int \<lfloor>q\<rfloor>")
  case True
  then obtain n where "q = of_int n" ..
  then show ?thesis by (simp del: of_int_minus add: of_int_minus [symmetric])
next
  case False
  define n where "n = \<lfloor>q\<rfloor>"
  have le: "of_int n \<le> q" and ub: "q < of_int n + 1" by (simp_all add: n_def)
  from False have "q \<noteq> of_int n" by (simp add: n_def)
  with le have lt: "of_int n < q" by linarith
  have fm: "\<lfloor>- q\<rfloor> = - n - 1"
  proof (rule floor_unique)
    show "of_int (- n - 1) \<le> - q" using ub by simp
    show "- q < of_int (- n - 1) + 1" using lt by simp
  qed
  have fq: "\<lfloor>q\<rfloor> = n" by (simp add: n_def)
  from lt ub show ?thesis
    unfolding round_ties_even_def Let_def fm fq by (auto simp: algebra_simps)
qed

text \<open>
  The spacing \<open>ulp x\<close> and the binade of \<open>x\<close>; \<open>nearest\<close> is odd and
  monotone, and leaves a double as it is.
\<close>

lemma binade_minus [simp]: "binade (- x) = binade x"
  by (simp add: binade_def)

lemma ulp_minus [simp]: "ulp (- x) = ulp x"
  by (simp add: ulp_def)

lemma ulp_pos [simp]: "0 < ulp x"
  by (simp add: ulp_def)

lemma ulp_nonneg [simp]: "0 \<le> ulp x"
  by (simp add: ulp_def)

lemma ulp_neq_0 [simp]: "ulp x \<noteq> 0"
  by (simp add: ulp_def)

lemma pow2_powr: "(2::real) ^ n * 2 powr a = 2 powr (a + real n)"
  by (simp add: powr_add powr_realpow)

lemma ulp_52: "2 ^ 52 * ulp x = 2 powr real_of_int (binade x)"
  unfolding ulp_def using pow2_powr [of 52 "real_of_int (binade x) - 52"] by simp

lemma ulp_53: "2 ^ 53 * ulp x = 2 powr (real_of_int (binade x) + 1)"
  unfolding ulp_def using pow2_powr [of 53 "real_of_int (binade x) - 52"]
  by (simp add: add.commute)

lemma nearest_minus: "nearest (- x) = - nearest x"
  by (simp add: nearest_def rte_minus)

lemma log2_floor_bounds:
  assumes "0 < x"
  shows "2 powr real_of_int \<lfloor>log 2 x\<rfloor> \<le> x" and "x < 2 powr (real_of_int \<lfloor>log 2 x\<rfloor> + 1)"
proof -
  have x: "2 powr log 2 x = x" using assms by simp
  have "2 powr real_of_int \<lfloor>log 2 x\<rfloor> \<le> 2 powr log 2 x"
    by (rule powr_mono) simp_all
  with x show "2 powr real_of_int \<lfloor>log 2 x\<rfloor> \<le> x" by simp
  have "2 powr log 2 x < 2 powr (real_of_int \<lfloor>log 2 x\<rfloor> + 1)"
    by (rule powr_less_mono) (linarith, simp)
  with x show "x < 2 powr (real_of_int \<lfloor>log 2 x\<rfloor> + 1)" by simp
qed

lemma binade_upper:
  assumes "0 < x"
  shows "x < 2 powr (real_of_int (binade x) + 1)"
proof -
  have "x < 2 powr (real_of_int \<lfloor>log 2 x\<rfloor> + 1)" using assms by (rule log2_floor_bounds)
  also have "\<dots> \<le> 2 powr (real_of_int (binade x) + 1)"
    using assms by (intro powr_mono) (simp_all add: binade_def)
  finally show ?thesis .
qed

lemma binade_lower:
  assumes "0 < x" "- 1022 < binade x"
  shows "2 powr real_of_int (binade x) \<le> x"
proof -
  from assms have "binade x = \<lfloor>log 2 x\<rfloor>" by (simp add: binade_def max_def split: if_splits)
  with log2_floor_bounds(1) [OF assms(1)] show ?thesis by simp
qed

lemma binade_mono:
  assumes "0 < x" "x \<le> y"
  shows "binade x \<le> binade y"
proof -
  from assms have "log 2 x \<le> log 2 y" by simp
  then have "\<lfloor>log 2 x\<rfloor> \<le> \<lfloor>log 2 y\<rfloor>" by (rule floor_mono)
  with assms show ?thesis by (simp add: binade_def)
qed

lemma binade_eqI:
  assumes "2 powr real_of_int e \<le> \<bar>x\<bar>" "\<bar>x\<bar> < 2 powr (real_of_int e + 1)" "- 1022 \<le> e"
  shows "binade x = e"
proof -
  have p: "0 < \<bar>x\<bar>" using assms(1) powr_gt_zero [of 2 "real_of_int e"] by linarith
  have "\<lfloor>log 2 \<bar>x\<bar>\<rfloor> = e"
  proof (rule floor_unique)
    from assms(1) p show "real_of_int e \<le> log 2 \<bar>x\<bar>" by (simp add: le_log_iff)
    from assms(2) p show "log 2 \<bar>x\<bar> < real_of_int e + 1" by (simp add: log_less_iff)
  qed
  with assms(3) show ?thesis by (simp add: binade_def)
qed

lemma quotient_upper:
  assumes "0 < x"
  shows "x / ulp x < 2 ^ 53"
proof -
  have "x < 2 powr (real_of_int (binade x) + 1)" using assms by (rule binade_upper)
  also have "\<dots> = 2 ^ 53 * ulp x" by (rule ulp_53 [symmetric])
  finally show ?thesis by (simp add: divide_less_eq)
qed

lemma quotient_lower:
  assumes "0 < x" "- 1022 < binade x"
  shows "2 ^ 52 \<le> x / ulp x"
proof -
  have "2 ^ 52 * ulp x = 2 powr real_of_int (binade x)" by (rule ulp_52)
  also have "\<dots> \<le> x" using assms by (rule binade_lower)
  finally show ?thesis by (simp add: le_divide_eq)
qed

lemma nearest_nonneg:
  assumes "0 \<le> x"
  shows "0 \<le> nearest x"
proof (cases "x = 0")
  case True
  then show ?thesis by (simp add: nearest_def)
next
  case False
  from assms have "0 \<le> x / ulp x" by (intro divide_nonneg_pos) simp_all
  then have "round_ties_even 0 \<le> round_ties_even (x / ulp x)" by (rule rte_mono)
  then have "0 \<le> round_ties_even (x / ulp x)" using rte_of_int [of 0] by simp
  with False show ?thesis by (simp add: nearest_def)
qed

lemma nearest_upper:
  assumes "0 < x"
  shows "nearest x \<le> 2 powr (real_of_int (binade x) + 1)"
proof -
  have "x / ulp x \<le> of_int (2 ^ 53)" using quotient_upper [OF assms] by simp
  then have "round_ties_even (x / ulp x) \<le> round_ties_even (of_int (2 ^ 53))" by (rule rte_mono)
  then have "round_ties_even (x / ulp x) \<le> 2 ^ 53" by (simp only: rte_of_int)
  then have "real_of_int (round_ties_even (x / ulp x)) \<le> 2 ^ 53"
    by (metis of_int_le_iff of_int_numeral of_int_power)
  then have "nearest x \<le> 2 ^ 53 * ulp x" using assms by (simp add: nearest_def)
  also have "\<dots> = 2 powr (real_of_int (binade x) + 1)" by (rule ulp_53)
  finally show ?thesis .
qed

lemma nearest_lower:
  assumes "0 < x" "- 1022 < binade x"
  shows "2 powr real_of_int (binade x) \<le> nearest x"
proof -
  have "of_int (2 ^ 52) \<le> x / ulp x" using quotient_lower [OF assms] by simp
  then have "round_ties_even (of_int (2 ^ 52)) \<le> round_ties_even (x / ulp x)" by (rule rte_mono)
  then have "2 ^ 52 \<le> round_ties_even (x / ulp x)" by (simp only: rte_of_int)
  then have "2 ^ 52 \<le> real_of_int (round_ties_even (x / ulp x))"
    by (metis of_int_le_iff of_int_numeral of_int_power)
  then have "2 ^ 52 * ulp x \<le> nearest x" using assms by (simp add: nearest_def)
  moreover have "2 ^ 52 * ulp x = 2 powr real_of_int (binade x)" by (rule ulp_52)
  ultimately show ?thesis by simp
qed

lemma nearest_mono_pos:
  assumes "0 < x" "x \<le> y"
  shows "nearest x \<le> nearest y"
proof (cases "binade x = binade y")
  case True
  then have u: "ulp x = ulp y" by (simp add: ulp_def)
  from assms have "x / ulp y \<le> y / ulp y" by (intro divide_right_mono) simp_all
  then have "round_ties_even (x / ulp y) \<le> round_ties_even (y / ulp y)" by (rule rte_mono)
  with assms show ?thesis by (simp add: nearest_def u)
next
  case False
  with binade_mono [OF assms] have lt: "binade x + 1 \<le> binade y" by simp
  have "- 1022 \<le> binade x" by (simp add: binade_def)
  with lt have n: "- 1022 < binade y" by simp
  have "nearest x \<le> 2 powr (real_of_int (binade x) + 1)" using assms(1) by (rule nearest_upper)
  also have "\<dots> \<le> 2 powr real_of_int (binade y)"
    using lt by (intro powr_mono) simp_all
  also have "\<dots> \<le> nearest y" using assms n by (intro nearest_lower) simp_all
  finally show ?thesis .
qed

lemma nearest_mono:
  assumes "x \<le> y"
  shows "nearest x \<le> nearest y"
proof -
  consider "0 < x" | "x \<le> 0" "0 \<le> y" | "y < 0" by linarith
  then show ?thesis
  proof cases
    case 1
    then show ?thesis using assms by (rule nearest_mono_pos)
  next
    case 2
    then have "0 \<le> nearest (- x)" and "0 \<le> nearest y" by (simp_all add: nearest_nonneg)
    then show ?thesis by (simp add: nearest_minus)
  next
    case 3
    with assms have "nearest (- y) \<le> nearest (- x)" by (intro nearest_mono_pos) simp_all
    then show ?thesis by (simp add: nearest_minus)
  qed
qed

lemma nearest_exact:
  assumes x: "x = real_of_int m * 2 powr real_of_int k"
    and m: "\<bar>m\<bar> < 2 ^ 53" and k: "- 1074 \<le> k"
  shows "nearest x = x"
proof (cases "x = 0")
  case True
  then show ?thesis by (simp add: nearest_def)
next
  case False
  then have m0: "m \<noteq> 0" using x by auto
  have ax: "\<bar>x\<bar> = real_of_int \<bar>m\<bar> * 2 powr real_of_int k" by (simp add: x abs_mult)
  have "real_of_int \<bar>m\<bar> < 2 ^ 53" using m by (metis of_int_less_iff of_int_numeral of_int_power)
  then have "\<bar>x\<bar> < 2 ^ 53 * 2 powr real_of_int k"
    by (simp add: ax)
  then have lt: "\<bar>x\<bar> < 2 powr (real_of_int k + 53)"
    using pow2_powr [of 53 "real_of_int k"] by simp
  have "log 2 \<bar>x\<bar> < real_of_int k + 53" using lt False by (simp add: log_less_iff)
  then have "\<lfloor>log 2 \<bar>x\<bar>\<rfloor> < k + 53" by (simp add: floor_less_iff)
  with k have b: "binade x \<le> k + 52" by (simp add: binade_def)
  define j where "j = nat (k + 52 - binade x)"
  from b have j: "real_of_int k - (real_of_int (binade x) - 52) = real j"
    by (simp add: j_def)
  have "x / ulp x = real_of_int m * 2 powr (real_of_int k - (real_of_int (binade x) - 52))"
    by (simp add: x ulp_def powr_diff)
  also have "\<dots> = real_of_int m * 2 ^ j" by (simp only: j powr_realpow)
  also have "\<dots> = real_of_int (m * 2 ^ j)" by simp
  finally have q: "x / ulp x = real_of_int (m * 2 ^ j)" .
  have "nearest x = real_of_int (round_ties_even (x / ulp x)) * ulp x"
    using False by (simp add: nearest_def)
  also have "\<dots> = (x / ulp x) * ulp x" unfolding q rte_of_int ..
  also have "\<dots> = x" by simp
  finally show ?thesis .
qed

lemma binade_ge: "- 1022 \<le> binade x"
  by (simp add: binade_def)

lemma nearest_idem_pos:
  assumes "0 < x"
  shows "nearest (nearest x) = nearest x"
proof -
  define m where "m = round_ties_even (x / ulp x)"
  define k where "k = binade x - 52"
  have u: "ulp x = 2 powr real_of_int k" by (simp add: ulp_def k_def)
  have n: "nearest x = real_of_int m * 2 powr real_of_int k"
    using assms by (simp add: nearest_def m_def u)
  have k: "- 1074 \<le> k" using binade_ge [of x] by (simp add: k_def)
  have "x / ulp x \<le> of_int (2 ^ 53)" using quotient_upper [OF assms] by simp
  then have "m \<le> round_ties_even (of_int (2 ^ 53))" unfolding m_def by (rule rte_mono)
  then have hi: "m \<le> 2 ^ 53" by (simp only: rte_of_int)
  have "0 \<le> x / ulp x" using assms by (intro divide_nonneg_pos) simp_all
  then have "of_int 0 \<le> x / ulp x" by simp
  then have "round_ties_even (of_int 0) \<le> m" unfolding m_def by (rule rte_mono)
  then have lo: "0 \<le> m" by (simp only: rte_of_int)
  show ?thesis
  proof (cases "m = 2 ^ 53")
    case True
    have "nearest x = real_of_int 1 * 2 powr real_of_int (k + 53)"
      using n True pow2_powr [of 53 "real_of_int k"] by simp
    then show ?thesis using k by (intro nearest_exact [where m = 1 and k = "k + 53"]) simp_all
  next
    case False
    with hi lo have "\<bar>m\<bar> < 2 ^ 53" by simp
    with n show ?thesis using k by (intro nearest_exact [where m = m and k = k])
  qed
qed

lemma nearest_idem: "nearest (nearest x) = nearest x"
proof -
  consider "0 < x" | "x = 0" | "x < 0" by linarith
  then show ?thesis
  proof cases
    case 1
    then show ?thesis by (rule nearest_idem_pos)
  next
    case 2
    then show ?thesis by (simp add: nearest_def)
  next
    case 3
    then have "nearest (nearest (- x)) = nearest (- x)" by (intro nearest_idem_pos) simp
    then show ?thesis by (simp add: nearest_minus)
  qed
qed

text \<open>
  The rounding \<open>rd\<close>: exact on a double, an infinity from \<open>2 ^ 1024\<close> on, and
  computed by \<open>rd_round\<close> from the scaled value \<open>x * 2 ^ n\<close> once \<open>n\<close> places
  \<open>x\<close> between \<open>2 ^ 52\<close> and \<open>2 ^ 53\<close>.  A value that a rounding returned is a
  double: rounding it again changes nothing.
\<close>

lemma nearest_abs_le:
  assumes "\<bar>x\<bar> \<le> t" "nearest t = t"
  shows "\<bar>nearest x\<bar> \<le> t"
proof -
  from assms(1) have "- t \<le> x" "x \<le> t" by simp_all
  then have "nearest (- t) \<le> nearest x" "nearest x \<le> nearest t" by (simp_all add: nearest_mono)
  with assms(2) show ?thesis by (simp add: nearest_minus)
qed

lemma rd_exact:
  assumes "x = real_of_int m * 2 powr real_of_int k" "\<bar>m\<bar> < 2 ^ 53" "- 1074 \<le> k"
    and "\<bar>x\<bar> < overflow_threshold"
  shows "rd x = Fin x"
proof -
  have "nearest x = x" using assms(1-3) by (rule nearest_exact)
  with assms(4) show ?thesis by (auto simp: rd_def)
qed

lemma small_below_threshold: "x < 2 ^ 53 \<Longrightarrow> x < overflow_threshold"
proof -
  have "(2::real) ^ 53 \<le> 2 ^ 1024" by (rule power_increasing) simp_all
  then show "x < 2 ^ 53 \<Longrightarrow> x < overflow_threshold" by (simp add: overflow_threshold_def)
qed

lemma rd_overflow:
  assumes "overflow_threshold \<le> x"
  shows "rd x = PInf"
proof -
  have "nearest overflow_threshold = overflow_threshold"
    by (rule nearest_exact [where m = 1 and k = 1024])
      (simp_all add: overflow_threshold_def powr_realpow [symmetric] del: powr_realpow)
  with nearest_mono [OF assms] show ?thesis by (simp add: rd_def)
qed

lemma rd_round:
  assumes "2 ^ 52 \<le> \<bar>x\<bar> * 2 ^ n" "\<bar>x\<bar> * 2 ^ n < 2 ^ 53" "n \<le> 1074"
  shows "rd x = Fin (real_of_int (round_ties_even (x * 2 ^ n)) / 2 ^ n)"
proof -
  have p: "2 powr (- real n) = 1 / 2 ^ n" by (simp add: powr_minus powr_realpow divide_inverse)
  have b: "binade x = 52 - int n"
  proof (rule binade_eqI)
    have "2 powr real_of_int (52 - int n) = 2 ^ 52 * 2 powr (- real n)"
      using pow2_powr [of 52 "- real n"] by (simp add: add.commute)
    also have "\<dots> \<le> \<bar>x\<bar>" using assms(1) by (simp add: p pos_divide_le_eq)
    finally show "2 powr real_of_int (52 - int n) \<le> \<bar>x\<bar>" .
    have "\<bar>x\<bar> < 2 ^ 53 * 2 powr (- real n)" using assms(2) by (simp add: p pos_less_divide_eq)
    also have "\<dots> = 2 powr (real_of_int (52 - int n) + 1)"
      using pow2_powr [of 53 "- real n"] by (simp add: add.commute)
    finally show "\<bar>x\<bar> < 2 powr (real_of_int (52 - int n) + 1)" .
    show "- 1022 \<le> 52 - int n" using assms(3) by simp
  qed
  have u: "ulp x = 1 / 2 ^ n" by (simp add: ulp_def b p)
  have x0: "x \<noteq> 0" using assms(1) by auto
  have n: "nearest x = real_of_int (round_ties_even (x * 2 ^ n)) / 2 ^ n"
    using x0 by (simp add: nearest_def u)
  have "\<bar>x\<bar> < 2 ^ 53 / 2 ^ n" using assms(2) by (simp add: pos_less_divide_eq)
  also have "\<dots> \<le> 2 ^ 53 / 1" by (rule divide_left_mono) simp_all
  finally have "\<bar>x\<bar> \<le> 2 ^ 53" by simp
  moreover have "nearest ((2::real) ^ 53) = 2 ^ 53"
    by (rule nearest_exact [where m = 1 and k = 53])
      (simp_all add: powr_realpow [symmetric] del: powr_realpow)
  ultimately have "\<bar>nearest x\<bar> \<le> 2 ^ 53" by (rule nearest_abs_le)
  moreover have "(2::real) ^ 53 < overflow_threshold"
    unfolding overflow_threshold_def by (rule power_strict_increasing) simp_all
  ultimately have "\<bar>nearest x\<bar> < overflow_threshold" by linarith
  then show ?thesis unfolding n [symmetric] by (auto simp: rd_def)
qed

lemma rd_0 [simp]: "rd 0 = Fin 0"
  by (simp add: rd_def nearest_def overflow_threshold_def)

lemma rd_minus: "rd (- x) = fneg (rd x)"
  by (auto simp: rd_def nearest_minus overflow_threshold_def)

lemma rd_at_most:
  assumes "x \<le> t" "nearest t = t" "t < overflow_threshold"
  shows "at_most (rd x) t"
proof -
  have "nearest x \<le> t" using nearest_mono [OF assms(1)] assms(2) by simp
  with assms(3) show ?thesis by (auto simp: rd_def at_most_def)
qed

lemma rd_at_least:
  assumes "t \<le> x" "nearest t = t" "- overflow_threshold < t"
  shows "at_least (rd x) t"
proof -
  have "t \<le> nearest x" using nearest_mono [OF assms(1)] assms(2) by simp
  with assms(3) show ?thesis by (auto simp: rd_def at_least_def)
qed

lemma nearest_int:
  assumes "\<bar>k\<bar> < 2 ^ 53"
  shows "nearest (real_of_int k) = real_of_int k"
  using assms by (intro nearest_exact [where m = k and k = 0]) simp_all

lemma int_below_threshold:
  assumes "\<bar>k\<bar> < 2 ^ 53"
  shows "real_of_int k < overflow_threshold" "- overflow_threshold < real_of_int k"
proof -
  have "real_of_int \<bar>k\<bar> < 2 ^ 53" using assms by (metis of_int_less_iff of_int_numeral of_int_power)
  then have "\<bar>real_of_int k\<bar> < 2 ^ 53" by simp
  then have "\<bar>real_of_int k\<bar> < overflow_threshold" by (rule small_below_threshold)
  then show "real_of_int k < overflow_threshold" "- overflow_threshold < real_of_int k" by linarith+
qed

lemma rd_of_int:
  assumes "\<bar>k\<bar> < 2 ^ 53"
  shows "rd (real_of_int k) = Fin (real_of_int k)"
  using nearest_int [OF assms] int_below_threshold [OF assms] by (simp add: rd_def)

lemma rd_numeral:
  assumes "(numeral k :: int) < 2 ^ 53"
  shows "rd (numeral k) = Fin (numeral k)"
  using rd_of_int [of "numeral k"] assms by simp

lemma rd_1: "rd 1 = Fin 1"
  using rd_of_int [of 1] by simp

lemma rd_idem:
  assumes "rd x = Fin y"
  shows "rd y = Fin y"
proof -
  from assms have y: "y = nearest x" and b: "nearest x < overflow_threshold"
    "- overflow_threshold < nearest x"
    by (auto simp: rd_def split: if_splits)
  have "nearest y = y" using y nearest_idem [of x] by simp
  with y b show ?thesis by (simp add: rd_def)
qed

lemma fadd_0_rd: "fadd (rd x) (Fin 0) = rd x"
  by (cases "rd x") (simp_all add: rd_idem)

lemma fdiv_1_rd: "fdiv (rd x) (Fin 1) = rd x"
  by (cases "rd x") (simp_all add: rd_idem)

lemma rd_between:
  assumes "lo \<le> x" "x \<le> hi" "nearest lo = lo" "nearest hi = hi"
    and "- overflow_threshold < lo" "hi < overflow_threshold"
  shows "\<exists>z. rd x = Fin z \<and> lo \<le> z \<and> z \<le> hi"
proof -
  have "nearest lo \<le> nearest x" "nearest x \<le> nearest hi"
    using assms(1,2) by (simp_all add: nearest_mono)
  with assms(3-6) show ?thesis by (auto simp: rd_def)
qed

lemma threshold_bounds: "- overflow_threshold < - (2 ^ 53)" "(2::real) ^ 53 < overflow_threshold"
proof -
  have "(2::real) ^ 53 < 2 ^ 1024" by (rule power_strict_increasing) simp_all
  then show "- overflow_threshold < - (2 ^ 53)" "(2::real) ^ 53 < overflow_threshold"
    by (simp_all add: overflow_threshold_def)
qed

lemma rd_between_small:
  assumes "lo \<le> x" "x \<le> hi" "nearest lo = lo" "nearest hi = hi" "- (2 ^ 53) \<le> lo" "hi \<le> 2 ^ 53"
  shows "\<exists>z. rd x = Fin z \<and> lo \<le> z \<and> z \<le> hi"
  using assms(1-4)
proof (rule rd_between)
  show "- overflow_threshold < lo" using threshold_bounds(1) assms(5) by linarith
  show "hi < overflow_threshold" using threshold_bounds(2) assms(6) by linarith
qed

lemma nearest_dyadic:
  assumes "\<bar>m\<bar> < 2 ^ 53" "n \<le> 1074"
  shows "nearest (real_of_int m / 2 ^ n) = real_of_int m / 2 ^ n"
proof (rule nearest_exact [where m = m and k = "- int n"])
  show "real_of_int m / 2 ^ n = real_of_int m * 2 powr real_of_int (- int n)"
    by (simp add: powr_minus powr_realpow divide_inverse)
  show "\<bar>m\<bar> < 2 ^ 53" by fact
  show "- 1074 \<le> - int n" using assms(2) by simp
qed

lemma nearest_0: "nearest 0 = 0"
  by (simp add: nearest_def)

lemma nearest_1: "nearest 1 = 1"
  using nearest_int [of 1] by simp

lemma nearest_numeral:
  assumes "(numeral k :: int) < 2 ^ 53"
  shows "nearest (numeral k) = numeral k"
  using nearest_int [of "numeral k"] assms by simp

lemma NaN_right [simp]: "fadd x NaN = NaN" "fmul x NaN = NaN" "fdiv x NaN = NaN"
  by (cases x; simp)+

lemma rd_huge: "rd huge = Fin huge"
  unfolding huge_def
  by (rule rd_exact [where m = 1 and k = 1023])
     (simp_all add: overflow_threshold_def powr_realpow [symmetric] del: powr_realpow)

lemma rd_huge_twice: "rd (2 * huge) = PInf"
  by (rule rd_overflow) (simp add: overflow_threshold_def huge_def)

lemma rd_large: "rd large = Fin large"
  unfolding large_def
  by (rule rd_exact [where m = 1 and k = 600])
     (simp_all add: overflow_threshold_def powr_realpow [symmetric] del: powr_realpow)

lemma rd_large_square: "rd (large * large) = PInf"
  by (rule rd_overflow) (simp add: overflow_threshold_def large_def)

lemma large_pos: "0 < large" "large \<noteq> 0"
  by (simp_all add: large_def)

section \<open>Rounding the index to 2 decimals\<close>

text \<open>
  Rounding to 2 decimals is monotone and fixes 20, 40, 60 and 80.  It
  therefore never carries the index across a threshold: it can only put it
  on one.
\<close>

lemma round2_at_most:
  assumes "x \<le> real_of_int t" "\<bar>100 * t\<bar> < 2 ^ 53"
  shows "at_most (round2 (Fin x)) (real_of_int t)"
proof -
  have t: "\<bar>t\<bar> < 2 ^ 53" using assms(2) by linarith
  have "x * 100 \<le> real_of_int (100 * t)" using assms(1) by simp
  then have a: "at_most (rd (x * 100)) (real_of_int (100 * t))"
    using nearest_int [OF assms(2)] int_below_threshold(1) [OF assms(2)] by (rule rd_at_most)
  have b: "at_most (Math_round_d (rd (x * 100))) (real_of_int (100 * t))"
  proof (cases "rd (x * 100)")
    case (Fin y)
    with a have "y \<le> real_of_int (100 * t)" by (simp add: at_most_def)
    then have "y + 1 / 2 < real_of_int (100 * t + 1)" by simp
    then have "\<lfloor>y + 1 / 2\<rfloor> < 100 * t + 1" by (simp only: floor_less_iff)
    then have "\<lfloor>y + 1 / 2\<rfloor> \<le> 100 * t" by simp
    then have "real_of_int \<lfloor>y + 1 / 2\<rfloor> \<le> real_of_int (100 * t)" by (simp only: of_int_le_iff)
    with Fin show ?thesis by (simp add: at_most_def)
  qed (use a in \<open>simp_all add: at_most_def\<close>)
  show ?thesis
  proof (cases "Math_round_d (rd (x * 100))")
    case (Fin y)
    with b have "y \<le> real_of_int (100 * t)" by (simp add: at_most_def)
    then have "y / 100 \<le> real_of_int t" by simp
    then have "at_most (rd (y / 100)) (real_of_int t)"
      using nearest_int [OF t] int_below_threshold(1) [OF t] by (rule rd_at_most)
    with Fin show ?thesis by (simp add: round2_def)
  qed (use b in \<open>simp_all add: at_most_def round2_def\<close>)
qed

lemma round2_at_least:
  assumes "real_of_int t \<le> x" "\<bar>100 * t\<bar> < 2 ^ 53"
  shows "at_least (round2 (Fin x)) (real_of_int t)"
proof -
  have t: "\<bar>t\<bar> < 2 ^ 53" using assms(2) by linarith
  have "real_of_int (100 * t) \<le> x * 100" using assms(1) by simp
  then have a: "at_least (rd (x * 100)) (real_of_int (100 * t))"
    using nearest_int [OF assms(2)] int_below_threshold(2) [OF assms(2)] by (rule rd_at_least)
  have b: "at_least (Math_round_d (rd (x * 100))) (real_of_int (100 * t))"
  proof (cases "rd (x * 100)")
    case (Fin y)
    with a have "real_of_int (100 * t) \<le> y + 1 / 2" by (simp add: at_least_def)
    then have "100 * t \<le> \<lfloor>y + 1 / 2\<rfloor>" by (simp only: le_floor_iff)
    then have "real_of_int (100 * t) \<le> real_of_int \<lfloor>y + 1 / 2\<rfloor>" by (simp only: of_int_le_iff)
    with Fin show ?thesis by (simp add: at_least_def)
  qed (use a in \<open>simp_all add: at_least_def\<close>)
  show ?thesis
  proof (cases "Math_round_d (rd (x * 100))")
    case (Fin y)
    with b have "real_of_int (100 * t) \<le> y" by (simp add: at_least_def)
    then have "real_of_int t \<le> y / 100" by simp
    then have "at_least (rd (y / 100)) (real_of_int t)"
      using nearest_int [OF t] int_below_threshold(2) [OF t] by (rule rd_at_least)
    with Fin show ?thesis by (simp add: round2_def)
  qed (use b in \<open>simp_all add: at_least_def round2_def\<close>)
qed

lemma result_fields_d:
  "index_d (calculateBitcoinDirectionIndex_d now l lh p ph b bh) =
     round2 (unroundedIndex_d (calculateBitcoinDirectionIndex_d now l lh p ph b bh))"
  "interp_d (calculateBitcoinDirectionIndex_d now l lh p ph b bh) =
     classify_d (unroundedIndex_d (calculateBitcoinDirectionIndex_d now l lh p ph b bh))"
  by (simp_all add: calculateBitcoinDirectionIndex_d_def Let_def unroundedIndex_d_def)

lemma round2_not_finite [simp]:
  "round2 NaN = NaN" "round2 PInf = PInf" "round2 NInf = NInf"
  by (simp_all add: round2_def)

lemma round2_threshold:
  assumes "t \<in> {20, 40, 60, 80}"
  shows "(x < real_of_int t \<longrightarrow> at_most (round2 (Fin x)) (real_of_int t)) \<and>
         (real_of_int t \<le> x \<longrightarrow> at_least (round2 (Fin x)) (real_of_int t))"
proof -
  from assms have "\<bar>100 * t\<bar> < 2 ^ 53" by auto
  then show ?thesis using round2_at_most [of x t] round2_at_least [of t x] by simp
qed

lemma classify_d_Fin:
  "classify_d (Fin y) =
     (if y < 20 then very_bearish else if y < 40 then bearish else if y < 60 then neutral
      else if y < 80 then bullish else very_bullish)"
  by (simp add: classify_d_def)

lemma classify_round2_finite:
  "(round2 (Fin x) = Fin 20 \<longrightarrow> classify_d (Fin x) = (if x < 20 then very_bearish else bearish)) \<and>
   (round2 (Fin x) = Fin 40 \<longrightarrow> classify_d (Fin x) = (if x < 40 then bearish else neutral)) \<and>
   (round2 (Fin x) = Fin 60 \<longrightarrow> classify_d (Fin x) = (if x < 60 then neutral else bullish)) \<and>
   (round2 (Fin x) = Fin 80 \<longrightarrow> classify_d (Fin x) = (if x < 80 then bullish else very_bullish)) \<and>
   (round2 (Fin x) \<notin> {Fin 20, Fin 40, Fin 60, Fin 80} \<longrightarrow>
      classify_d (Fin x) = classify_d (round2 (Fin x)))"
proof -
  have t20: "(x < 20 \<longrightarrow> at_most (round2 (Fin x)) 20) \<and> (20 \<le> x \<longrightarrow> at_least (round2 (Fin x)) 20)"
    using round2_threshold [where t = 20 and x = x] by simp
  have t40: "(x < 40 \<longrightarrow> at_most (round2 (Fin x)) 40) \<and> (40 \<le> x \<longrightarrow> at_least (round2 (Fin x)) 40)"
    using round2_threshold [where t = 40 and x = x] by simp
  have t60: "(x < 60 \<longrightarrow> at_most (round2 (Fin x)) 60) \<and> (60 \<le> x \<longrightarrow> at_least (round2 (Fin x)) 60)"
    using round2_threshold [where t = 60 and x = x] by simp
  have t80: "(x < 80 \<longrightarrow> at_most (round2 (Fin x)) 80) \<and> (80 \<le> x \<longrightarrow> at_least (round2 (Fin x)) 80)"
    using round2_threshold [where t = 80 and x = x] by simp
  show ?thesis
  proof (cases "round2 (Fin x)")
    case NaN
    with t20 show ?thesis by (cases "x < 20") (simp_all add: at_most_def at_least_def)
  next
    case PInf
    with t80 have "80 \<le> x" by (cases "x < 80") (simp_all add: at_most_def)
    with PInf show ?thesis by (simp add: classify_d_Fin classify_d_def)
  next
    case NInf
    with t20 have "x < 20" by (cases "x < 20") (simp_all add: at_least_def)
    with NInf show ?thesis by (simp add: classify_d_Fin classify_d_def)
  next
    case (Fin y)
    from t20 Fin have b20: "(x < 20 \<longrightarrow> y \<le> 20) \<and> (20 \<le> x \<longrightarrow> 20 \<le> y)"
      by (simp add: at_most_def at_least_def)
    from t40 Fin have b40: "(x < 40 \<longrightarrow> y \<le> 40) \<and> (40 \<le> x \<longrightarrow> 40 \<le> y)"
      by (simp add: at_most_def at_least_def)
    from t60 Fin have b60: "(x < 60 \<longrightarrow> y \<le> 60) \<and> (60 \<le> x \<longrightarrow> 60 \<le> y)"
      by (simp add: at_most_def at_least_def)
    from t80 Fin have b80: "(x < 80 \<longrightarrow> y \<le> 80) \<and> (80 \<le> x \<longrightarrow> 80 \<le> y)"
      by (simp add: at_most_def at_least_def)
    have c20: "y = 20 \<longrightarrow> classify_d (Fin x) = (if x < 20 then very_bearish else bearish)"
    proof
      assume "y = 20"
      with b40 have "x < 40" by (cases "x < 40") simp_all
      then show "classify_d (Fin x) = (if x < 20 then very_bearish else bearish)"
        by (simp add: classify_d_Fin)
    qed
    have c40: "y = 40 \<longrightarrow> classify_d (Fin x) = (if x < 40 then bearish else neutral)"
    proof
      assume y: "y = 40"
      have "20 \<le> x" using b20 y by (cases "x < 20") simp_all
      moreover have "x < 60" using b60 y by (cases "x < 60") simp_all
      ultimately show "classify_d (Fin x) = (if x < 40 then bearish else neutral)"
        by (simp add: classify_d_Fin)
    qed
    have c60: "y = 60 \<longrightarrow> classify_d (Fin x) = (if x < 60 then neutral else bullish)"
    proof
      assume y: "y = 60"
      have "40 \<le> x" using b40 y by (cases "x < 40") simp_all
      moreover have "x < 80" using b80 y by (cases "x < 80") simp_all
      ultimately show "classify_d (Fin x) = (if x < 60 then neutral else bullish)"
        by (simp add: classify_d_Fin)
    qed
    have c80: "y = 80 \<longrightarrow> classify_d (Fin x) = (if x < 80 then bullish else very_bullish)"
    proof
      assume "y = 80"
      with b60 have "60 \<le> x" by (cases "x < 60") simp_all
      then show "classify_d (Fin x) = (if x < 80 then bullish else very_bullish)"
        by (simp add: classify_d_Fin)
    qed
    have cn: "y \<notin> {20, 40, 60, 80} \<longrightarrow> classify_d (Fin x) = classify_d (Fin y)"
    proof
      assume n: "y \<notin> {20, 40, 60, 80}"
      then have ne: "y \<noteq> 20" "y \<noteq> 40" "y \<noteq> 60" "y \<noteq> 80" by simp_all
      have "(x < 20) = (y < 20)" using b20 ne(1) by (cases "x < 20") simp_all
      moreover have "(x < 40) = (y < 40)" using b40 ne(2) by (cases "x < 40") simp_all
      moreover have "(x < 60) = (y < 60)" using b60 ne(3) by (cases "x < 60") simp_all
      moreover have "(x < 80) = (y < 80)" using b80 ne(4) by (cases "x < 80") simp_all
      ultimately show "classify_d (Fin x) = classify_d (Fin y)" by (simp only: classify_d_Fin)
    qed
    show ?thesis
      unfolding Fin using c20 c40 c60 c80 cn by (simp only: number.inject insert_iff empty_iff)
  qed
qed

lemma classify_round2:
  "(round2 u = Fin 20 \<longrightarrow> classify_d u = (if fless u (Fin 20) then very_bearish else bearish)) \<and>
   (round2 u = Fin 40 \<longrightarrow> classify_d u = (if fless u (Fin 40) then bearish else neutral)) \<and>
   (round2 u = Fin 60 \<longrightarrow> classify_d u = (if fless u (Fin 60) then neutral else bullish)) \<and>
   (round2 u = Fin 80 \<longrightarrow> classify_d u = (if fless u (Fin 80) then bullish else very_bullish)) \<and>
   (round2 u \<notin> {Fin 20, Fin 40, Fin 60, Fin 80} \<longrightarrow> classify_d u = classify_d (round2 u))"
proof (cases u)
  case (Fin x)
  then show ?thesis using classify_round2_finite [of x] by simp
qed simp_all

section \<open>What the clamps guarantee over doubles\<close>

text \<open>
  The standard deviation that \<open>calculateStats\<close> returns is never 0 and never
  \<open>NaN\<close>.  The trend is \<open>NaN\<close> or lies between -1 and 1.  The index is \<open>NaN\<close>
  exactly when a z-score or the trend of the result is \<open>NaN\<close>, and lies between
  0 and 100 otherwise: the rounded weights 0.4 and 0.35 add up to 0.75
  exactly, and no rounding leaves the bounds, which are doubles.
\<close>

lemma stdDev_d_never_zero:
  "stdDev_d (calculateStats_d vals) \<noteq> Fin 0 \<and> stdDev_d (calculateStats_d vals) \<noteq> NaN"
  by (simp add: calculateStats_d_def Let_def falsy_def)

lemma clamp_d:
  assumes "0 \<le> a"
  shows "(x = NaN \<longrightarrow> Math_max (Fin (- a)) (Math_min (Fin a) x) = NaN) \<and>
         (x \<noteq> NaN \<longrightarrow> (\<exists>y. Math_max (Fin (- a)) (Math_min (Fin a) x) = Fin y \<and> - a \<le> y \<and> y \<le> a))"
  using assms by (cases x) (auto simp: Math_max_def Math_min_def)

lemma trend_d_range:
  "calculateBTCTrend_d c h = NaN \<or>
   (at_least (calculateBTCTrend_d c h) (- 1) \<and> at_most (calculateBTCTrend_d c h) 1)"
proof -
  have k: "Math_max (Fin (- 1)) (Math_min (Fin 1) x) = NaN \<or>
      (at_least (Math_max (Fin (- 1)) (Math_min (Fin 1) x)) (- 1) \<and>
       at_most (Math_max (Fin (- 1)) (Math_min (Fin 1) x)) 1)" for x
    using clamp_d [of 1 x] by (cases "x = NaN") (auto simp: at_least_def at_most_def)
  show ?thesis
    unfolding calculateBTCTrend_d_def Let_def
    using k by (simp add: at_least_def at_most_def)
qed

lemma weight_liquidity: "rd (4 / 10) = Fin (3602879701896397 / 2 ^ 53)"
  using rd_round [of "4 / 10" 54] by (simp add: round_ties_even_def)

lemma weight_pmi: "rd (35 / 100) = Fin (3152519739159347 / 2 ^ 53)"
  using rd_round [of "35 / 100" 54] by (simp add: round_ties_even_def)

lemma weight_trend: "rd (25 / 100) = Fin (1 / 2 ^ 2)"
  using rd_round [of "25 / 100" 54] by (simp add: round_ties_even_def)

lemma weights_sum: "(3602879701896397 / 2 ^ 53 + 3152519739159347 / 2 ^ 53 :: real) = 3 / 2 ^ 2"
  by simp

lemma between_Fin:
  assumes "at_least x lo" "at_most x hi"
  shows "\<exists>z. x = Fin z \<and> lo \<le> z \<and> z \<le> hi"
  using assms by (cases x) (simp_all add: at_least_def at_most_def)

lemma half_between:
  assumes "- 2 \<le> y" "y \<le> 2"
  shows "\<exists>z. fdiv (Fin y) (Fin 2) = Fin z \<and> - 1 \<le> z \<and> z \<le> 1"
proof -
  have "\<exists>z. rd (y / 2) = Fin z \<and> - 1 \<le> z \<and> z \<le> 1"
    using assms by (intro rd_between_small) (simp_all add: nearest_minus nearest_1)
  then show ?thesis by simp
qed

lemma weighted_between:
  assumes "0 \<le> W" "nearest W = W" "W \<le> 2 ^ 53" "- 1 \<le> z" "z \<le> 1"
  shows "\<exists>p. fmul (Fin W) (Fin z) = Fin p \<and> - W \<le> p \<and> p \<le> W"
proof -
  have "W * z \<le> W * 1" using assms(1,5) by (intro mult_left_mono)
  moreover have "W * (- 1) \<le> W * z" using assms(1,4) by (intro mult_left_mono)
  ultimately have "\<exists>p. rd (W * z) = Fin p \<and> - W \<le> p \<and> p \<le> W"
    using assms(2,3) by (intro rd_between_small) (simp_all add: nearest_minus)
  then show ?thesis by simp
qed

lemma sum_between:
  assumes "- a \<le> p" "p \<le> a" "- b \<le> q" "q \<le> b" "nearest (a + b) = a + b" "a + b \<le> 2 ^ 53"
  shows "\<exists>s. fadd (Fin p) (Fin q) = Fin s \<and> - (a + b) \<le> s \<and> s \<le> a + b"
proof -
  have "nearest (- (a + b)) = - (a + b)" using assms(5) by (simp only: nearest_minus)
  moreover have "- (a + b) \<le> p + q" "p + q \<le> a + b" using assms(1-4) by linarith+
  moreover have "- (2 ^ 53) \<le> - (a + b)" using assms(6) by linarith
  ultimately have "\<exists>s. rd (p + q) = Fin s \<and> - (a + b) \<le> s \<and> s \<le> a + b"
    using assms(5,6) by (intro rd_between_small)
  then show ?thesis by simp
qed

lemma rescale_between:
  assumes "- 1 \<le> r" "r \<le> 1"
  shows "\<exists>u. fmul (fdiv (fadd (Fin r) (Fin 1)) (Fin 2)) (Fin 100) = Fin u \<and> 0 \<le> u \<and> u \<le> 100"
proof -
  have "\<exists>s. rd (r + 1) = Fin s \<and> 0 \<le> s \<and> s \<le> 2"
    using assms by (intro rd_between_small) (simp_all add: nearest_numeral nearest_0)
  then obtain s where s: "fadd (Fin r) (Fin 1) = Fin s" "0 \<le> s" "s \<le> 2" by auto
  have "\<exists>h. rd (s / 2) = Fin h \<and> 0 \<le> h \<and> h \<le> 1"
    using s(2,3) by (intro rd_between_small) (simp_all add: nearest_1 nearest_0)
  then obtain h where h: "fdiv (Fin s) (Fin 2) = Fin h" "0 \<le> h" "h \<le> 1" by auto
  have "\<exists>u. rd (h * 100) = Fin u \<and> 0 \<le> u \<and> u \<le> 100"
    using h(2,3) by (intro rd_between_small) (simp_all add: nearest_numeral nearest_0)
  then show ?thesis using s(1) h(1) by simp
qed

lemma scaledIndex_d_NaN:
  "lz = NaN \<or> pz = NaN \<or> t = NaN \<Longrightarrow> scaledIndex_d lz pz t = NaN"
  by (auto simp: scaledIndex_d_def Let_def Math_min_def Math_max_def)

lemma scaledIndex_d_between:
  assumes "lz \<noteq> NaN" "pz \<noteq> NaN" "at_least t (- 1)" "at_most t 1"
  shows "\<exists>u. scaledIndex_d lz pz t = Fin u \<and> 0 \<le> u \<and> u \<le> 100"
proof -
  obtain tv where t: "t = Fin tv" "- 1 \<le> tv" "tv \<le> 1"
    using between_Fin [OF assms(3,4)] by auto
  obtain cl where cl: "Math_max (Fin (- 2)) (Math_min (Fin 2) lz) = Fin cl" "- 2 \<le> cl" "cl \<le> 2"
    using clamp_d [of 2 lz] assms(1) by auto
  obtain cp where cp: "Math_max (Fin (- 2)) (Math_min (Fin 2) pz) = Fin cp" "- 2 \<le> cp" "cp \<le> 2"
    using clamp_d [of 2 pz] assms(2) by auto
  obtain nl where nl: "fdiv (Fin cl) (Fin 2) = Fin nl" "- 1 \<le> nl" "nl \<le> 1"
    using half_between [OF cl(2,3)] by auto
  obtain np where np: "fdiv (Fin cp) (Fin 2) = Fin np" "- 1 \<le> np" "np \<le> 1"
    using half_between [OF cp(2,3)] by auto
  define W1 :: real where "W1 = 3602879701896397 / 2 ^ 53"
  define W2 :: real where "W2 = 3152519739159347 / 2 ^ 53"
  define W3 :: real where "W3 = 1 / 2 ^ 2"
  have n1: "nearest W1 = W1" unfolding W1_def using nearest_dyadic [of 3602879701896397 53] by simp
  have n2: "nearest W2 = W2" unfolding W2_def using nearest_dyadic [of 3152519739159347 53] by simp
  have n3: "nearest W3 = W3" unfolding W3_def using nearest_dyadic [of 1 2] by simp
  have n12: "nearest (W1 + W2) = W1 + W2"
    unfolding W1_def W2_def weights_sum using nearest_dyadic [of 3 2] by simp
  have n123: "nearest (W1 + W2 + W3) = W1 + W2 + W3"
    unfolding W1_def W2_def W3_def by (simp add: nearest_1)
  have one: "W1 + W2 + W3 = 1" unfolding W1_def W2_def W3_def by simp
  obtain a where a: "fmul (Fin W1) (Fin nl) = Fin a" "- W1 \<le> a" "a \<le> W1"
    using weighted_between [of W1 nl] n1 nl(2,3) by (auto simp: W1_def)
  obtain b where b: "fmul (Fin W2) (Fin np) = Fin b" "- W2 \<le> b" "b \<le> W2"
    using weighted_between [of W2 np] n2 np(2,3) by (auto simp: W2_def)
  obtain c where c: "fmul (Fin W3) (Fin tv) = Fin c" "- W3 \<le> c" "c \<le> W3"
    using weighted_between [of W3 tv] n3 t(2,3) by (auto simp: W3_def)
  obtain s where s: "fadd (Fin a) (Fin b) = Fin s" "- (W1 + W2) \<le> s" "s \<le> W1 + W2"
    using sum_between [OF a(2,3) b(2,3) n12] by (auto simp: W1_def W2_def)
  obtain r where r: "fadd (Fin s) (Fin c) = Fin r" "- (W1 + W2 + W3) \<le> r" "r \<le> W1 + W2 + W3"
    using sum_between [OF s(2,3) c(2,3) n123] by (auto simp: W1_def W2_def W3_def)
  have r1: "- 1 \<le> r" "r \<le> 1" using r(2,3) one by simp_all
  have "scaledIndex_d lz pz t = fmul (fdiv (fadd (Fin r) (Fin 1)) (Fin 2)) (Fin 100)"
    unfolding scaledIndex_d_def Let_def weight_liquidity weight_pmi weight_trend
      cl(1) cp(1) nl(1) np(1) t(1)
    using a(1) b(1) c(1) s(1) r(1) by (simp add: W1_def W2_def W3_def)
  with rescale_between [OF r1] show ?thesis by simp
qed

lemma index_d_range:
  "(let R = calculateBitcoinDirectionIndex_d now l lh p ph b bh in
      (btcTrend_d R = NaN \<or> (at_least (btcTrend_d R) (- 1) \<and> at_most (btcTrend_d R) 1)) \<and>
      (index_d R = NaN \<longleftrightarrow>
         liquidityZScore_d R = NaN \<or> pmiZScore_d R = NaN \<or> btcTrend_d R = NaN) \<and>
      (index_d R = NaN \<or> (at_least (index_d R) 0 \<and> at_most (index_d R) 100)))"
proof -
  define R where "R = calculateBitcoinDirectionIndex_d now l lh p ph b bh"
  have i: "index_d R = round2 (scaledIndex_d (liquidityZScore_d R) (pmiZScore_d R) (btcTrend_d R))"
    unfolding R_def using result_fields_d(1) by (simp add: unroundedIndex_d_def)
  have "btcTrend_d R = calculateBTCTrend_d (price_d b) bh"
    by (simp add: R_def calculateBitcoinDirectionIndex_d_def Let_def)
  then have t: "btcTrend_d R = NaN \<or> (at_least (btcTrend_d R) (- 1) \<and> at_most (btcTrend_d R) 1)"
    using trend_d_range [of "price_d b" bh] by simp
  have "(index_d R = NaN \<longleftrightarrow>
         liquidityZScore_d R = NaN \<or> pmiZScore_d R = NaN \<or> btcTrend_d R = NaN) \<and>
      (index_d R = NaN \<or> (at_least (index_d R) 0 \<and> at_most (index_d R) 100))"
  proof (cases "liquidityZScore_d R = NaN \<or> pmiZScore_d R = NaN \<or> btcTrend_d R = NaN")
    case True
    then have "index_d R = NaN" unfolding i by (simp add: scaledIndex_d_NaN)
    with True show ?thesis by simp
  next
    case False
    with t obtain u where u: "scaledIndex_d (liquidityZScore_d R) (pmiZScore_d R) (btcTrend_d R) = Fin u"
      "0 \<le> u" "u \<le> 100"
      using scaledIndex_d_between [of "liquidityZScore_d R" "pmiZScore_d R" "btcTrend_d R"] by auto
    have lo: "at_least (round2 (Fin u)) 0" using round2_at_least [of 0 u] u(2) by simp
    have hi: "at_most (round2 (Fin u)) 100" using round2_at_most [of u 100] u(3) by simp
    from lo have "round2 (Fin u) \<noteq> NaN" by (auto simp: at_least_def)
    with lo hi False show ?thesis unfolding i u(1) by simp
  qed
  with t show ?thesis unfolding R_def Let_def by (rule conjI)
qed

section \<open>Overflow and rounding in the calculation over doubles\<close>

lemma trend_overflow:
  "calculateBTCTrend_d c [Fin huge, Fin huge] = NaN"
  by (simp add: calculateBTCTrend_d_def slice_last_def reduce_sum_d_def length_d_def fsub_def
      Math_min_def Math_max_def rd_huge rd_huge_twice Let_def)

lemma corr_overflow:
  "calculateCorrelation_d [Fin large, Fin (- large)] [Fin 1, Fin 1] = NaN"
  by (simp add: calculateCorrelation_d_def reduce_sum_d_def corr_step_d_def fsub_def
      rd_large rd_large_square rd_1 rd_numeral rd_minus large_pos Let_def)

lemma stats_tenth:
  "calculateStats_d [rd (1 / 10), rd (1 / 10), rd (1 / 10)] =
     \<lparr>mean_d = Fin (7205759403792795 / 72057594037927936), stdDev_d = Fin (1 / 72057594037927936)\<rparr>"
proof -
  have r0: "rd (1 / 10) = Fin (3602879701896397 / 36028797018963968)"
    using rd_round [of "1 / 10" 56] by (simp add: round_ties_even_def)
  have r1: "rd (3602879701896397 / 36028797018963968) = Fin (3602879701896397 / 36028797018963968)"
    using rd_round [of "3602879701896397 / 36028797018963968" 56] by (simp add: round_ties_even_def)
  have r2: "rd (3602879701896397 / 18014398509481984) = Fin (3602879701896397 / 18014398509481984)"
    using rd_round [of "3602879701896397 / 18014398509481984" 55] by (simp add: round_ties_even_def)
  have r3: "rd (10808639105689191 / 36028797018963968) = Fin (1351079888211149 / 4503599627370496)"
    using rd_round [of "10808639105689191 / 36028797018963968" 54] by (simp add: round_ties_even_def)
  have r4: "rd (1351079888211149 / 13510798882111488) = Fin (7205759403792795 / 72057594037927936)"
    using rd_round [of "1351079888211149 / 13510798882111488" 56] by (simp add: round_ties_even_def)
  have r5: "rd (1 / 72057594037927936) = Fin (1 / 72057594037927936)"
    using rd_round [of "1 / 72057594037927936" 108] by (simp add: round_ties_even_def)
  have r6: "rd (1 / 5192296858534827628530496329220096) = Fin (1 / 5192296858534827628530496329220096)"
    using rd_round [of "1 / 5192296858534827628530496329220096" 164] by (simp add: round_ties_even_def)
  have r7: "rd (1 / 2596148429267413814265248164610048) = Fin (1 / 2596148429267413814265248164610048)"
    using rd_round [of "1 / 2596148429267413814265248164610048" 163] by (simp add: round_ties_even_def)
  have r8: "rd (3 / 5192296858534827628530496329220096) = Fin (3 / 5192296858534827628530496329220096)"
    using rd_round [of "3 / 5192296858534827628530496329220096" 163] by (simp add: round_ties_even_def)
  have rs1: "sqrt (1 / 5192296858534827628530496329220096) = 1 / 72057594037927936"
    by (rule real_sqrt_unique) (simp_all add: power2_eq_square)
  show ?thesis
    by (simp add: calculateStats_d_def reduce_sum_d_def length_d_def Math_pow2_def fsub_def falsy_def Let_def
        rd_numeral rd_1 rd_minus r0 r1 r2 r3 r4 r5 r6 r7 r8 rs1)
qed

lemma corr_constant:
  "calculateCorrelation_d [rd (1 / 10), rd (1 / 10), rd (1 / 10)]
     [rd (1 / 10), rd (1 / 10), rd (1 / 10)] = Fin 1"
proof -
  have r0: "rd (1 / 10) = Fin (3602879701896397 / 36028797018963968)"
    using rd_round [of "1 / 10" 56] by (simp add: round_ties_even_def)
  have r1: "rd (3602879701896397 / 36028797018963968) = Fin (3602879701896397 / 36028797018963968)"
    using rd_round [of "3602879701896397 / 36028797018963968" 56] by (simp add: round_ties_even_def)
  have r2: "rd (3602879701896397 / 18014398509481984) = Fin (3602879701896397 / 18014398509481984)"
    using rd_round [of "3602879701896397 / 18014398509481984" 55] by (simp add: round_ties_even_def)
  have r3: "rd (10808639105689191 / 36028797018963968) = Fin (1351079888211149 / 4503599627370496)"
    using rd_round [of "10808639105689191 / 36028797018963968" 54] by (simp add: round_ties_even_def)
  have r4: "rd (1351079888211149 / 13510798882111488) = Fin (7205759403792795 / 72057594037927936)"
    using rd_round [of "1351079888211149 / 13510798882111488" 56] by (simp add: round_ties_even_def)
  have r5: "rd (1 / 72057594037927936) = Fin (1 / 72057594037927936)"
    using rd_round [of "1 / 72057594037927936" 108] by (simp add: round_ties_even_def)
  have r6: "rd (1 / 5192296858534827628530496329220096) = Fin (1 / 5192296858534827628530496329220096)"
    using rd_round [of "1 / 5192296858534827628530496329220096" 164] by (simp add: round_ties_even_def)
  have r7: "rd (1 / 2596148429267413814265248164610048) = Fin (1 / 2596148429267413814265248164610048)"
    using rd_round [of "1 / 2596148429267413814265248164610048" 163] by (simp add: round_ties_even_def)
  have r8: "rd (3 / 5192296858534827628530496329220096) = Fin (3 / 5192296858534827628530496329220096)"
    using rd_round [of "3 / 5192296858534827628530496329220096" 163] by (simp add: round_ties_even_def)
  have r9: "rd (9 / 26959946667150639794667015087019630673637144422540572481103610249216) = Fin (9 / 26959946667150639794667015087019630673637144422540572481103610249216)"
    using rd_round [of "9 / 26959946667150639794667015087019630673637144422540572481103610249216" 273] by (simp add: round_ties_even_def)
  have rs1: "sqrt (9 / 26959946667150639794667015087019630673637144422540572481103610249216) = 3 / 5192296858534827628530496329220096"
    by (rule real_sqrt_unique) (simp_all add: power2_eq_square)
  show ?thesis
    by (simp add: calculateCorrelation_d_def reduce_sum_d_def corr_step_d_def fsub_def Let_def
        rd_numeral rd_1 rd_minus r0 r1 r2 r3 r4 r5 r6 r7 r8 r9 rs1)
qed

text \<open>
  C6.  The trend of the price history \<open>[2 ^ 1023, 2 ^ 1023]\<close>, two finite doubles
  (about 8.99e307 each; 1e308 behaves alike), is \<open>NaN\<close>: both window sums
  overflow to \<open>Infinity\<close>, both averages are \<open>Infinity\<close>, the test
  \<open>mediumTermAvg === 0\<close> fails, \<open>(Infinity - Infinity) / Infinity\<close> is \<open>NaN\<close> and
  \<open>Math.max(-1, Math.min(1, NaN * 10))\<close> is \<open>NaN\<close>.  The result is outside
  \<open>[-1, 1]\<close>, against the docstring of the function (a value between -1 and 1).
\<close>

theorem trend_not_bounded:
  "calculateBTCTrend_d (Fin huge) [Fin huge, Fin huge] = NaN"
  by (rule trend_overflow)

theorem trend_not_bounded_witness:
  "\<not> at_least (calculateBTCTrend_d (Fin huge) [Fin huge, Fin huge]) (- 1) \<and>
   \<not> at_most (calculateBTCTrend_d (Fin huge) [Fin huge, Fin huge]) 1"
  using trend_not_bounded by (simp add: at_least_def at_most_def)

text \<open>
  C1.  The direction index of a call whose arguments are all finite, with
  liquidity 0, PMI 50, empty liquidity and PMI histories and that price
  history: the z-scores are 0, the trend \<open>NaN\<close> enters the weighted sum, the
  index is \<open>NaN\<close>, every comparison of the classification fails and the
  interpretation is \<open>very_bullish\<close>.  The index is outside the 0 to 100 scale
  that the docstring of the function and the interface declare, and the trend
  field is outside \<open>[-1, 1]\<close>.
\<close>

theorem index_not_bounded:
  "calculateBitcoinDirectionIndex_d 0 (liquidity_snapshot (Fin 0)) [] (pmi_snapshot (Fin 50)) []
       (price_snapshot (Fin huge)) [Fin huge, Fin huge] =
     \<lparr>index_d = NaN, liquidityZScore_d = Fin 0, pmiZScore_d = Fin 0, btcTrend_d = NaN,
      timestamp_d = 0, interp_d = very_bullish\<rparr>"
proof -
  have w: "rd (2 / 5) = Fin (3602879701896397 / 9007199254740992)"
    using rd_round [of "2 / 5" 54] by (simp add: round_ties_even_def)
  have w': "rd (7 / 20) = Fin (3152519739159347 / 9007199254740992)"
    using rd_round [of "7 / 20" 54] by (simp add: round_ties_even_def)
  show ?thesis
    by (simp add: calculateBitcoinDirectionIndex_d_def liquidity_snapshot_def pmi_snapshot_def
        price_snapshot_def calculateZScore_d_def calculateStats_d_def trend_overflow
        scaledIndex_d_def classify_d_def round2_def fsub_def Math_min_def Math_max_def Let_def
        rd_numeral rd_1 w w')
qed

theorem index_not_bounded_witness:
  "\<not> at_least (index_d (calculateBitcoinDirectionIndex_d 0 (liquidity_snapshot (Fin 0)) []
       (pmi_snapshot (Fin 50)) [] (price_snapshot (Fin huge)) [Fin huge, Fin huge])) 0 \<and>
   \<not> at_most (index_d (calculateBitcoinDirectionIndex_d 0 (liquidity_snapshot (Fin 0)) []
       (pmi_snapshot (Fin 50)) [] (price_snapshot (Fin huge)) [Fin huge, Fin huge])) 100 \<and>
   \<not> at_least (btcTrend_d (calculateBitcoinDirectionIndex_d 0 (liquidity_snapshot (Fin 0)) []
       (pmi_snapshot (Fin 50)) [] (price_snapshot (Fin huge)) [Fin huge, Fin huge])) (- 1)"
  using index_not_bounded by (simp add: at_least_def at_most_def)

text \<open>
  C8.  The correlation of \<open>[2 ^ 600, - 2 ^ 600]\<close> with the constant series
  \<open>[1, 1]\<close> is \<open>NaN\<close>: the means are 0 and 1, \<open>indexVariance\<close> overflows to
  \<open>Infinity\<close>, \<open>priceVariance\<close> is 0, \<open>Math.sqrt(Infinity * 0)\<close> is \<open>NaN\<close>, the
  test \<open>denominator === 0\<close> fails and \<open>0 / NaN\<close> is \<open>NaN\<close>.  The correlation
  of the constant series \<open>[0.1, 0.1, 0.1]\<close> with itself is 1: the mean rounds
  to 0.10000000000000002, every deviation is \<open>- 2 ^ - 56\<close>, the numerator and
  the denominator are both \<open>3 * 2 ^ - 112\<close>.  In both calls a series is
  constant, so the denominator of the Pearson formula is 0, the case that the
  test of line 158 is there to answer with 0.
\<close>

theorem correlation_not_guarded:
  "calculateCorrelation_d [Fin large, Fin (- large)] [Fin 1, Fin 1] = NaN \<and>
   calculateCorrelation_d [rd (1 / 10), rd (1 / 10), rd (1 / 10)]
     [rd (1 / 10), rd (1 / 10), rd (1 / 10)] = Fin 1"
  using corr_overflow corr_constant by (rule conjI)

theorem correlation_not_guarded_witness:
  "calculateCorrelation_d [Fin large, Fin (- large)] [Fin 1, Fin 1] \<noteq> Fin 0 \<and>
   calculateCorrelation_d [rd (1 / 10), rd (1 / 10), rd (1 / 10)]
     [rd (1 / 10), rd (1 / 10), rd (1 / 10)] \<noteq> Fin 0"
  using correlation_not_guarded by simp

text \<open>
  C2.  The statistics of the constant sample \<open>[0.1, 0.1, 0.1]\<close>, where \<open>0.1\<close> is
  the double nearest to one tenth: the sum rounds to 0.30000000000000004, the
  mean is 0.10000000000000002 and differs from every element, each squared
  deviation is \<open>2 ^ - 112\<close>, and the standard deviation is \<open>2 ^ - 56\<close>, about
  1.39e-17.  It is not 0, so \<open>stdDev || 1\<close> leaves it: a sample whose values
  are all the same has neither its value as mean nor 1 as standard deviation,
  against the comment of lines 23 and 24.
\<close>

theorem constant_sample_not_substituted:
  "calculateStats_d [rd (1 / 10), rd (1 / 10), rd (1 / 10)] =
     \<lparr>mean_d = Fin (7205759403792795 / 72057594037927936),
      stdDev_d = Fin (1 / 72057594037927936)\<rparr>"
  by (rule stats_tenth)

theorem constant_sample_not_substituted_witness:
  "stdDev_d (calculateStats_d [rd (1 / 10), rd (1 / 10), rd (1 / 10)]) \<noteq> Fin 1 \<and>
   mean_d (calculateStats_d [rd (1 / 10), rd (1 / 10), rd (1 / 10)]) \<noteq> rd (1 / 10)"
proof -
  have r0: "rd (1 / 10) = Fin (3602879701896397 / 36028797018963968)"
    using rd_round [of "1 / 10" 56] by (simp add: round_ties_even_def)
  show ?thesis using constant_sample_not_substituted by (simp add: r0)
qed

section \<open>The interpretation and the rounded index\<close>

text \<open>The four example results, each with the index before rounding.\<close>

lemma rounded_up_eval:
  "rounded_up_result =
     \<lparr>index_d = Fin 20, liquidityZScore_d = Fin (- (7378697629483821 / 18446744073709551616)), pmiZScore_d = Fin (- 2),
      btcTrend_d = Fin (- 1), timestamp_d = 0, interp_d = very_bearish\<rparr>
   \<and> unroundedIndex_d rounded_up_result = Fin (2814186817153139 / 140737488355328)"
proof -
  have r0: "rd (1 / 2500) = Fin (7378697629483821 / 18446744073709551616)"
    using rd_round [of "1 / 2500" 64] by (simp add: round_ties_even_def)
  have r1: "rd (7378697629483821 / 18446744073709551616) = Fin (7378697629483821 / 18446744073709551616)"
    using rd_round [of "7378697629483821 / 18446744073709551616" 64] by (simp add: round_ties_even_def)
  have r2: "rd (17 / 8) = Fin (17 / 8)"
    using rd_round [of "17 / 8" 51] by (simp add: round_ties_even_def)
  have r3: "rd (9 / 8) = Fin (9 / 8)"
    using rd_round [of "9 / 8" 52] by (simp add: round_ties_even_def)
  have r4: "rd (9 / 17) = Fin (4768517252509937 / 9007199254740992)"
    using rd_round [of "9 / 17" 53] by (simp add: round_ties_even_def)
  have r5: "rd (23842586262549685 / 4503599627370496) = Fin (5960646565637421 / 1125899906842624)"
    using rd_round [of "23842586262549685 / 4503599627370496" 50] by (simp add: round_ties_even_def)
  have r6: "rd (7378697629483821 / 36893488147419103232) = Fin (7378697629483821 / 36893488147419103232)"
    using rd_round [of "7378697629483821 / 36893488147419103232" 65] by (simp add: round_ties_even_def)
  have r7: "rd (2 / 5) = Fin (3602879701896397 / 9007199254740992)"
    using rd_round [of "2 / 5" 54] by (simp add: round_ties_even_def)
  have r8: "rd (26584559915698320207793929692937 / 332306998946228968225951765070086144) = Fin (5902958103587057 / 73786976294838206464)"
    using rd_round [of "26584559915698320207793929692937 / 332306998946228968225951765070086144" 66] by (simp add: round_ties_even_def)
  have r9: "rd (7 / 20) = Fin (3152519739159347 / 9007199254740992)"
    using rd_round [of "7 / 20" 54] by (simp add: round_ties_even_def)
  have r10: "rd (3152519739159347 / 9007199254740992) = Fin (3152519739159347 / 9007199254740992)"
    using rd_round [of "3152519739159347 / 9007199254740992" 54] by (simp add: round_ties_even_def)
  have r11: "rd (25831344661296957681 / 73786976294838206464) = Fin (6306480630199453 / 18014398509481984)"
    using rd_round [of "25831344661296957681 / 73786976294838206464" 54] by (simp add: round_ties_even_def)
  have r12: "rd (1 / 4) = Fin (1 / 4)"
    using rd_round [of "1 / 4" 54] by (simp add: round_ties_even_def)
  have r13: "rd (10810080257569949 / 18014398509481984) = Fin (2702520064392487 / 4503599627370496)"
    using rd_round [of "10810080257569949 / 18014398509481984" 53] by (simp add: round_ties_even_def)
  have r14: "rd (1801079562978009 / 4503599627370496) = Fin (1801079562978009 / 4503599627370496)"
    using rd_round [of "1801079562978009 / 4503599627370496" 54] by (simp add: round_ties_even_def)
  have r15: "rd (1801079562978009 / 9007199254740992) = Fin (1801079562978009 / 9007199254740992)"
    using rd_round [of "1801079562978009 / 9007199254740992" 55] by (simp add: round_ties_even_def)
  have r16: "rd (45026989074450225 / 2251799813685248) = Fin (2814186817153139 / 140737488355328)"
    using rd_round [of "45026989074450225 / 2251799813685248" 48] by (simp add: round_ties_even_def)
  have r17: "rd (70354670428828475 / 35184372088832) = Fin (8794333803603559 / 4398046511104)"
    using rd_round [of "70354670428828475 / 35184372088832" 42] by (simp add: round_ties_even_def)
  have e: "rounded_up_result =
     \<lparr>index_d = Fin 20, liquidityZScore_d = Fin (- (7378697629483821 / 18446744073709551616)), pmiZScore_d = Fin (- 2),
      btcTrend_d = Fin (- 1), timestamp_d = 0, interp_d = very_bearish\<rparr>"
    by (simp add: rounded_up_result_def calculateBitcoinDirectionIndex_d_def liquidity_snapshot_def pmi_snapshot_def
        price_snapshot_def calculateZScore_d_def calculateStats_d_def calculateBTCTrend_d_def
        scaledIndex_d_def classify_d_def round2_def slice_last_def reduce_sum_d_def length_d_def
        fsub_def Math_min_def Math_max_def Let_def falling_prices_def
        rd_numeral rd_1 rd_minus
        r0 r1 r2 r3 r4 r5 r6 r7 r8 r9 r10 r11 r12 r13 r14 r15 r16 r17)
  have "unroundedIndex_d rounded_up_result = Fin (2814186817153139 / 140737488355328)"
    by (simp add: e unroundedIndex_d_def scaledIndex_d_def Math_min_def Math_max_def Let_def
        rd_numeral rd_1 rd_minus
        r0 r1 r2 r3 r4 r5 r6 r7 r8 r9 r10 r11 r12 r13 r14 r15 r16 r17)
  with e show ?thesis by (rule conjI)
qed

lemma below_20_eval:
  "below_20_result =
     \<lparr>index_d = Fin 20, liquidityZScore_d = Fin (- (7 / 4)), pmiZScore_d = Fin 0,
      btcTrend_d = Fin (- 1), timestamp_d = 0, interp_d = very_bearish\<rparr>
   \<and> unroundedIndex_d below_20_result = Fin (5629499534213119 / 281474976710656)"
proof -
  have r1: "rd (7 / 4) = Fin (7 / 4)"
    using rd_round [of "7 / 4" 52] by (simp add: round_ties_even_def)
  have r2: "rd (17 / 8) = Fin (17 / 8)"
    using rd_round [of "17 / 8" 51] by (simp add: round_ties_even_def)
  have r3: "rd (9 / 8) = Fin (9 / 8)"
    using rd_round [of "9 / 8" 52] by (simp add: round_ties_even_def)
  have r4: "rd (9 / 17) = Fin (4768517252509937 / 9007199254740992)"
    using rd_round [of "9 / 17" 53] by (simp add: round_ties_even_def)
  have r5: "rd (23842586262549685 / 4503599627370496) = Fin (5960646565637421 / 1125899906842624)"
    using rd_round [of "23842586262549685 / 4503599627370496" 50] by (simp add: round_ties_even_def)
  have r6: "rd (7 / 8) = Fin (7 / 8)"
    using rd_round [of "7 / 8" 53] by (simp add: round_ties_even_def)
  have r7: "rd (2 / 5) = Fin (3602879701896397 / 9007199254740992)"
    using rd_round [of "2 / 5" 54] by (simp add: round_ties_even_def)
  have r8: "rd (25220157913274779 / 72057594037927936) = Fin (6305039478318695 / 18014398509481984)"
    using rd_round [of "25220157913274779 / 72057594037927936" 54] by (simp add: round_ties_even_def)
  have r9: "rd (7 / 20) = Fin (3152519739159347 / 9007199254740992)"
    using rd_round [of "7 / 20" 54] by (simp add: round_ties_even_def)
  have r10: "rd (6305039478318695 / 18014398509481984) = Fin (6305039478318695 / 18014398509481984)"
    using rd_round [of "6305039478318695 / 18014398509481984" 54] by (simp add: round_ties_even_def)
  have r11: "rd (1 / 4) = Fin (1 / 4)"
    using rd_round [of "1 / 4" 54] by (simp add: round_ties_even_def)
  have r12: "rd (10808639105689191 / 18014398509481984) = Fin (1351079888211149 / 2251799813685248)"
    using rd_round [of "10808639105689191 / 18014398509481984" 53] by (simp add: round_ties_even_def)
  have r13: "rd (900719925474099 / 2251799813685248) = Fin (900719925474099 / 2251799813685248)"
    using rd_round [of "900719925474099 / 2251799813685248" 54] by (simp add: round_ties_even_def)
  have r14: "rd (900719925474099 / 4503599627370496) = Fin (900719925474099 / 4503599627370496)"
    using rd_round [of "900719925474099 / 4503599627370496" 55] by (simp add: round_ties_even_def)
  have r15: "rd (22517998136852475 / 1125899906842624) = Fin (5629499534213119 / 281474976710656)"
    using rd_round [of "22517998136852475 / 1125899906842624" 48] by (simp add: round_ties_even_def)
  have r16: "rd (140737488355327975 / 70368744177664) = Fin (4398046511103999 / 2199023255552)"
    using rd_round [of "140737488355327975 / 70368744177664" 42] by (simp add: round_ties_even_def)
  have e: "below_20_result =
     \<lparr>index_d = Fin 20, liquidityZScore_d = Fin (- (7 / 4)), pmiZScore_d = Fin 0,
      btcTrend_d = Fin (- 1), timestamp_d = 0, interp_d = very_bearish\<rparr>"
    by (simp add: below_20_result_def calculateBitcoinDirectionIndex_d_def liquidity_snapshot_def pmi_snapshot_def
        price_snapshot_def calculateZScore_d_def calculateStats_d_def calculateBTCTrend_d_def
        scaledIndex_d_def classify_d_def round2_def slice_last_def reduce_sum_d_def length_d_def
        fsub_def Math_min_def Math_max_def Let_def falling_prices_def
        rd_numeral rd_1 rd_minus
        r1 r2 r3 r4 r5 r6 r7 r8 r9 r10 r11 r12 r13 r14 r15 r16)
  have "unroundedIndex_d below_20_result = Fin (5629499534213119 / 281474976710656)"
    by (simp add: e unroundedIndex_d_def scaledIndex_d_def Math_min_def Math_max_def Let_def
        rd_numeral rd_1 rd_minus
        r1 r2 r3 r4 r5 r6 r7 r8 r9 r10 r11 r12 r13 r14 r15 r16)
  with e show ?thesis by (rule conjI)
qed

lemma exactly_40_eval:
  "exactly_40_result =
     \<lparr>index_d = Fin 40, liquidityZScore_d = Fin (- 1), pmiZScore_d = Fin 0,
      btcTrend_d = Fin 0, timestamp_d = 0, interp_d = neutral\<rparr>
   \<and> unroundedIndex_d exactly_40_result = Fin 40"
proof -
  have r1: "rd (1 / 2) = Fin (1 / 2)"
    using rd_round [of "1 / 2" 53] by (simp add: round_ties_even_def)
  have r2: "rd (2 / 5) = Fin (3602879701896397 / 9007199254740992)"
    using rd_round [of "2 / 5" 54] by (simp add: round_ties_even_def)
  have r3: "rd (3602879701896397 / 18014398509481984) = Fin (3602879701896397 / 18014398509481984)"
    using rd_round [of "3602879701896397 / 18014398509481984" 55] by (simp add: round_ties_even_def)
  have r4: "rd (7 / 20) = Fin (3152519739159347 / 9007199254740992)"
    using rd_round [of "7 / 20" 54] by (simp add: round_ties_even_def)
  have r5: "rd (1 / 4) = Fin (1 / 4)"
    using rd_round [of "1 / 4" 54] by (simp add: round_ties_even_def)
  have r6: "rd (14411518807585587 / 18014398509481984) = Fin (3602879701896397 / 4503599627370496)"
    using rd_round [of "14411518807585587 / 18014398509481984" 53] by (simp add: round_ties_even_def)
  have r7: "rd (3602879701896397 / 9007199254740992) = Fin (3602879701896397 / 9007199254740992)"
    using rd_round [of "3602879701896397 / 9007199254740992" 54] by (simp add: round_ties_even_def)
  have r8: "rd (90071992547409925 / 2251799813685248) = Fin 40"
    using rd_round [of "90071992547409925 / 2251799813685248" 47] by (simp add: round_ties_even_def)
  have e: "exactly_40_result =
     \<lparr>index_d = Fin 40, liquidityZScore_d = Fin (- 1), pmiZScore_d = Fin 0,
      btcTrend_d = Fin 0, timestamp_d = 0, interp_d = neutral\<rparr>"
    by (simp add: exactly_40_result_def calculateBitcoinDirectionIndex_d_def liquidity_snapshot_def pmi_snapshot_def
        price_snapshot_def calculateZScore_d_def calculateStats_d_def calculateBTCTrend_d_def
        scaledIndex_d_def classify_d_def round2_def slice_last_def reduce_sum_d_def length_d_def
        fsub_def Math_min_def Math_max_def Let_def falling_prices_def
        rd_numeral rd_1 rd_minus
        r1 r2 r3 r4 r5 r6 r7 r8)
  have "unroundedIndex_d exactly_40_result = Fin 40"
    by (simp add: e unroundedIndex_d_def scaledIndex_d_def Math_min_def Math_max_def Let_def
        rd_numeral rd_1 rd_minus
        r1 r2 r3 r4 r5 r6 r7 r8)
  with e show ?thesis by (rule conjI)
qed

lemma rounded_down_eval:
  "rounded_down_result =
     \<lparr>index_d = Fin (7651897241879183 / 140737488355328), liquidityZScore_d = Fin 0, pmiZScore_d = Fin (1 / 2),
      btcTrend_d = Fin 0, timestamp_d = 0, interp_d = neutral\<rparr>
   \<and> unroundedIndex_d rounded_down_result = Fin (7652600929320959 / 140737488355328)"
proof -
  have r1: "rd (1 / 2) = Fin (1 / 2)"
    using rd_round [of "1 / 2" 53] by (simp add: round_ties_even_def)
  have r2: "rd (1 / 4) = Fin (1 / 4)"
    using rd_round [of "1 / 4" 54] by (simp add: round_ties_even_def)
  have r3: "rd (2 / 5) = Fin (3602879701896397 / 9007199254740992)"
    using rd_round [of "2 / 5" 54] by (simp add: round_ties_even_def)
  have r4: "rd (7 / 20) = Fin (3152519739159347 / 9007199254740992)"
    using rd_round [of "7 / 20" 54] by (simp add: round_ties_even_def)
  have r5: "rd (3152519739159347 / 36028797018963968) = Fin (3152519739159347 / 36028797018963968)"
    using rd_round [of "3152519739159347 / 36028797018963968" 56] by (simp add: round_ties_even_def)
  have r6: "rd (39181316758123315 / 36028797018963968) = Fin (2448832297382707 / 2251799813685248)"
    using rd_round [of "39181316758123315 / 36028797018963968" 52] by (simp add: round_ties_even_def)
  have r7: "rd (2448832297382707 / 4503599627370496) = Fin (2448832297382707 / 4503599627370496)"
    using rd_round [of "2448832297382707 / 4503599627370496" 53] by (simp add: round_ties_even_def)
  have r8: "rd (61220807434567675 / 1125899906842624) = Fin (7652600929320959 / 140737488355328)"
    using rd_round [of "61220807434567675 / 1125899906842624" 47] by (simp add: round_ties_even_def)
  have r9: "rd (191315023233023975 / 35184372088832) = Fin (5978594476031999 / 1099511627776)"
    using rd_round [of "191315023233023975 / 35184372088832" 40] by (simp add: round_ties_even_def)
  have r10: "rd (5437 / 100) = Fin (7651897241879183 / 140737488355328)"
    using rd_round [of "5437 / 100" 47] by (simp add: round_ties_even_def)
  have e: "rounded_down_result =
     \<lparr>index_d = Fin (7651897241879183 / 140737488355328), liquidityZScore_d = Fin 0, pmiZScore_d = Fin (1 / 2),
      btcTrend_d = Fin 0, timestamp_d = 0, interp_d = neutral\<rparr>"
    by (simp add: rounded_down_result_def calculateBitcoinDirectionIndex_d_def liquidity_snapshot_def pmi_snapshot_def
        price_snapshot_def calculateZScore_d_def calculateStats_d_def calculateBTCTrend_d_def
        scaledIndex_d_def classify_d_def round2_def slice_last_def reduce_sum_d_def length_d_def
        fsub_def Math_min_def Math_max_def Let_def falling_prices_def
        rd_numeral rd_1 rd_minus
        r1 r2 r3 r4 r5 r6 r7 r8 r9 r10)
  have "unroundedIndex_d rounded_down_result = Fin (7652600929320959 / 140737488355328)"
    by (simp add: e unroundedIndex_d_def scaledIndex_d_def Math_min_def Math_max_def Let_def
        rd_numeral rd_1 rd_minus
        r1 r2 r3 r4 r5 r6 r7 r8 r9 r10)
  with e show ?thesis by (rule conjI)
qed

text \<open>
  C3.  The interpretation is decided on the index before rounding, the double
  \<open>U\<close> that the local constant \<open>index\<close> holds: below 20 \<open>very_bearish\<close>, below 40
  \<open>bearish\<close>, below 60 \<open>neutral\<close>, below 80 \<open>bullish\<close>, and \<open>very_bullish\<close>
  otherwise, also when \<open>U\<close> is \<open>NaN\<close>.  The returned index is
  \<open>Math.round(U * 100) / 100\<close>.  A returned index of exactly 20 is \<open>bearish\<close>
  when \<open>U\<close> is at least 20 and \<open>very_bearish\<close> when \<open>U\<close> is below 20 and was
  rounded up; likewise 40 is \<open>neutral\<close> or \<open>bearish\<close>, 60 is \<open>bullish\<close> or
  \<open>neutral\<close>, 80 is \<open>very_bullish\<close> or \<open>bullish\<close>.  A returned index other than
  20, 40, 60 and 80 has the interpretation that the same thresholds give to
  the returned index itself.
\<close>

theorem interpretation_decided_before_rounding:
  "(let R = calculateBitcoinDirectionIndex_d now l lh p ph b bh; U = unroundedIndex_d R in
      interp_d R =
        (if fless U (Fin 20) then very_bearish
         else if fless U (Fin 40) then bearish
         else if fless U (Fin 60) then neutral
         else if fless U (Fin 80) then bullish
         else very_bullish) \<and>
      index_d R = fdiv (Math_round_d (fmul U (Fin 100))) (Fin 100) \<and>
      (index_d R = Fin 20 \<longrightarrow> interp_d R = (if fless U (Fin 20) then very_bearish else bearish)) \<and>
      (index_d R = Fin 40 \<longrightarrow> interp_d R = (if fless U (Fin 40) then bearish else neutral)) \<and>
      (index_d R = Fin 60 \<longrightarrow> interp_d R = (if fless U (Fin 60) then neutral else bullish)) \<and>
      (index_d R = Fin 80 \<longrightarrow> interp_d R = (if fless U (Fin 80) then bullish else very_bullish)) \<and>
      (index_d R \<notin> {Fin 20, Fin 40, Fin 60, Fin 80} \<longrightarrow>
         interp_d R =
           (if fless (index_d R) (Fin 20) then very_bearish
            else if fless (index_d R) (Fin 40) then bearish
            else if fless (index_d R) (Fin 60) then neutral
            else if fless (index_d R) (Fin 80) then bullish
            else very_bullish)))"
proof -
  define R where "R = calculateBitcoinDirectionIndex_d now l lh p ph b bh"
  define U where "U = unroundedIndex_d R"
  have i: "index_d R = round2 U" and c: "interp_d R = classify_d U"
    unfolding R_def U_def by (rule result_fields_d)+
  note t = classify_round2 [of U, folded i c]
  have 1: "interp_d R =
        (if fless U (Fin 20) then very_bearish
         else if fless U (Fin 40) then bearish
         else if fless U (Fin 60) then neutral
         else if fless U (Fin 80) then bullish
         else very_bullish)"
    unfolding c by (rule classify_d_def)
  have 2: "index_d R = fdiv (Math_round_d (fmul U (Fin 100))) (Fin 100)"
    unfolding i by (rule round2_def)
  have 7: "index_d R \<notin> {Fin 20, Fin 40, Fin 60, Fin 80} \<longrightarrow>
         interp_d R =
           (if fless (index_d R) (Fin 20) then very_bearish
            else if fless (index_d R) (Fin 40) then bearish
            else if fless (index_d R) (Fin 60) then neutral
            else if fless (index_d R) (Fin 80) then bullish
            else very_bullish)"
    using t [THEN conjunct2, THEN conjunct2, THEN conjunct2, THEN conjunct2]
    unfolding i classify_d_def [symmetric] .
  have "interp_d R =
        (if fless U (Fin 20) then very_bearish
         else if fless U (Fin 40) then bearish
         else if fless U (Fin 60) then neutral
         else if fless U (Fin 80) then bullish
         else very_bullish) \<and>
      index_d R = fdiv (Math_round_d (fmul U (Fin 100))) (Fin 100) \<and>
      (index_d R = Fin 20 \<longrightarrow> interp_d R = (if fless U (Fin 20) then very_bearish else bearish)) \<and>
      (index_d R = Fin 40 \<longrightarrow> interp_d R = (if fless U (Fin 40) then bearish else neutral)) \<and>
      (index_d R = Fin 60 \<longrightarrow> interp_d R = (if fless U (Fin 60) then neutral else bullish)) \<and>
      (index_d R = Fin 80 \<longrightarrow> interp_d R = (if fless U (Fin 80) then bullish else very_bullish)) \<and>
      (index_d R \<notin> {Fin 20, Fin 40, Fin 60, Fin 80} \<longrightarrow>
         interp_d R =
           (if fless (index_d R) (Fin 20) then very_bearish
            else if fless (index_d R) (Fin 40) then bearish
            else if fless (index_d R) (Fin 60) then neutral
            else if fless (index_d R) (Fin 80) then bullish
            else very_bullish))"
    using 1 2 t [THEN conjunct1] t [THEN conjunct2, THEN conjunct1]
      t [THEN conjunct2, THEN conjunct2, THEN conjunct1]
      t [THEN conjunct2, THEN conjunct2, THEN conjunct2, THEN conjunct1] 7
    by (intro conjI)
  then show ?thesis unfolding R_def U_def Let_def .
qed

text \<open>
  With liquidity -0.0004, PMI 48 and falling prices the index before rounding
  is 19.996000000000002: the result carries the index 20 and the
  interpretation \<open>very_bearish\<close>, where the thresholds applied to the returned
  index give \<open>bearish\<close>.
\<close>

theorem rounded_index_counterexample:
  "index_d rounded_up_result = Fin 20 \<and> interp_d rounded_up_result = very_bearish \<and>
   unroundedIndex_d rounded_up_result = Fin (2814186817153139 / 140737488355328)"
  using rounded_up_eval [THEN conjunct2] by (simp add: rounded_up_eval [THEN conjunct1])

theorem interpretation_decided_before_rounding_witness:
  "index_d exactly_40_result = Fin 40 \<and>
   \<not> fless (unroundedIndex_d exactly_40_result) (Fin 40) \<and>
   interp_d exactly_40_result = neutral \<and>
   index_d below_20_result = Fin 20 \<and>
   fless (unroundedIndex_d below_20_result) (Fin 20) \<and>
   interp_d below_20_result = very_bearish \<and>
   index_d rounded_down_result = rd (5437 / 100) \<and>
   index_d rounded_down_result \<notin> {Fin 20, Fin 40, Fin 60, Fin 80} \<and>
   interp_d rounded_down_result = neutral"
proof -
  note a = interpretation_decided_before_rounding [of 0 "liquidity_snapshot (Fin (- 1))" "[]"
      "pmi_snapshot (Fin 50)" "[]" "price_snapshot (Fin 1)" "[]", folded exactly_40_result_def]
  note b = interpretation_decided_before_rounding [of 0 "liquidity_snapshot (Fin (- (7 / 4)))" "[]"
      "pmi_snapshot (Fin 50)" "[]" "price_snapshot (Fin 1)" falling_prices,
      folded below_20_result_def]
  note c = interpretation_decided_before_rounding [of 0 "liquidity_snapshot (Fin 0)" "[]"
      "pmi_snapshot (Fin (101 / 2))" "[]" "price_snapshot (Fin 1)" "[]",
      folded rounded_down_result_def]
  have a1: "index_d exactly_40_result = Fin 40"
    by (simp add: exactly_40_eval [THEN conjunct1])
  have a2: "unroundedIndex_d exactly_40_result = Fin 40"
    by (rule exactly_40_eval [THEN conjunct2])
  have b1: "index_d below_20_result = Fin 20"
    by (simp add: below_20_eval [THEN conjunct1])
  have b2: "unroundedIndex_d below_20_result = Fin (5629499534213119 / 281474976710656)"
    by (rule below_20_eval [THEN conjunct2])
  have c1: "index_d rounded_down_result = Fin (7651897241879183 / 140737488355328)"
    by (simp add: rounded_down_eval [THEN conjunct1])
  have c2: "rd (5437 / 100) = Fin (7651897241879183 / 140737488355328)"
    using rd_round [of "5437 / 100" 47] by (simp add: round_ties_even_def)
  have a3: "interp_d exactly_40_result = neutral"
    using a [unfolded Let_def, THEN conjunct2, THEN conjunct2, THEN conjunct2, THEN conjunct1]
      a1 a2
    by simp
  have b3: "interp_d below_20_result = very_bearish"
    using b [unfolded Let_def, THEN conjunct2, THEN conjunct2, THEN conjunct1] b1 b2
    by simp
  have c3: "interp_d rounded_down_result = neutral"
    using c [unfolded Let_def, THEN conjunct2, THEN conjunct2, THEN conjunct2, THEN conjunct2,
        THEN conjunct2, THEN conjunct2] c1
    by simp
  show ?thesis using a1 a2 a3 b1 b2 b3 c1 c2 c3 by simp
qed

section \<open>The PMI recentring\<close>

lemma zscore_unit:
  "calculateZScore_d (fsub v (Fin c)) (Fin 0) (Fin 1) = fsub v (Fin c)"
proof (cases v)
  case (Fin a)
  then show ?thesis by (simp add: calculateZScore_d_def fsub_def fadd_0_rd fdiv_1_rd)
qed (simp_all add: calculateZScore_d_def fsub_def)

lemma pmiZScore_empty_history:
  "pmiZScore_d (calculateBitcoinDirectionIndex_d now l lh p [] b bh) = fsub (pmi_value_d p) (Fin 50)"
  by (simp add: calculateBitcoinDirectionIndex_d_def Let_def calculateStats_d_def zscore_unit)

lemma pmi_487_value: "pmi_487 = Fin (3426957841452237 / 70368744177664)"
  unfolding pmi_487_def
  using rd_round [of "487 / 10" 47] by (simp add: round_ties_even_def)

lemma recentred_z:
  "pmiZScore_d (calculateBitcoinDirectionIndex_d 0 (liquidity_snapshot (Fin 0)) []
       (pmi_snapshot (rd (487 / 10))) [rd (487 / 10), rd (487 / 10), rd (487 / 10)] (price_snapshot (Fin 1)) []) = Fin 0"
proof -
  have r0: "rd (487 / 10) = Fin (3426957841452237 / 70368744177664)"
    using rd_round [of "487 / 10" 47] by (simp add: round_ties_even_def)
  have r1: "rd (91479367430963 / 70368744177664) = Fin (91479367430963 / 70368744177664)"
    using rd_round [of "91479367430963 / 70368744177664" 52] by (simp add: round_ties_even_def)
  have r2: "rd (91479367430963 / 35184372088832) = Fin (91479367430963 / 35184372088832)"
    using rd_round [of "91479367430963 / 35184372088832" 51] by (simp add: round_ties_even_def)
  have r3: "rd (274438102292889 / 70368744177664) = Fin (274438102292889 / 70368744177664)"
    using rd_round [of "274438102292889 / 70368744177664" 51] by (simp add: round_ties_even_def)
  show ?thesis
    by (simp add: calculateBitcoinDirectionIndex_d_def pmi_snapshot_def calculateZScore_d_def calculateStats_d_def reduce_sum_d_def length_d_def Math_pow2_def fsub_def falsy_def Let_def
        rd_numeral rd_1 rd_minus r0 r1 r2 r3)
qed

lemma plain_z:
  "calculateZScore_d (rd (487 / 10))
       (mean_d (calculateStats_d [rd (487 / 10), rd (487 / 10), rd (487 / 10)]))
       (stdDev_d (calculateStats_d [rd (487 / 10), rd (487 / 10), rd (487 / 10)])) = Fin (- 1)"
proof -
  have r0: "rd (487 / 10) = Fin (3426957841452237 / 70368744177664)"
    using rd_round [of "487 / 10" 47] by (simp add: round_ties_even_def)
  have r1: "rd (3426957841452237 / 70368744177664) = Fin (3426957841452237 / 70368744177664)"
    using rd_round [of "3426957841452237 / 70368744177664" 47] by (simp add: round_ties_even_def)
  have r2: "rd (3426957841452237 / 35184372088832) = Fin (3426957841452237 / 35184372088832)"
    using rd_round [of "3426957841452237 / 35184372088832" 46] by (simp add: round_ties_even_def)
  have r3: "rd (10280873524356711 / 70368744177664) = Fin (1285109190544589 / 8796093022208)"
    using rd_round [of "10280873524356711 / 70368744177664" 45] by (simp add: round_ties_even_def)
  have r4: "rd (1285109190544589 / 26388279066624) = Fin (6853915682904475 / 140737488355328)"
    using rd_round [of "1285109190544589 / 26388279066624" 47] by (simp add: round_ties_even_def)
  have r5: "rd (1 / 140737488355328) = Fin (1 / 140737488355328)"
    using rd_round [of "1 / 140737488355328" 99] by (simp add: round_ties_even_def)
  have r6: "rd (1 / 19807040628566084398385987584) = Fin (1 / 19807040628566084398385987584)"
    using rd_round [of "1 / 19807040628566084398385987584" 146] by (simp add: round_ties_even_def)
  have r7: "rd (1 / 9903520314283042199192993792) = Fin (1 / 9903520314283042199192993792)"
    using rd_round [of "1 / 9903520314283042199192993792" 145] by (simp add: round_ties_even_def)
  have r8: "rd (3 / 19807040628566084398385987584) = Fin (3 / 19807040628566084398385987584)"
    using rd_round [of "3 / 19807040628566084398385987584" 145] by (simp add: round_ties_even_def)
  have rs1: "sqrt (1 / 19807040628566084398385987584) = 1 / 140737488355328"
    by (rule real_sqrt_unique) (simp_all add: power2_eq_square)
  show ?thesis
    by (simp add: calculateZScore_d_def calculateStats_d_def reduce_sum_d_def length_d_def Math_pow2_def fsub_def falsy_def Let_def
        rd_numeral rd_1 rd_minus r0 r1 r2 r3 r4 r5 r6 r7 r8 rs1)
qed

text \<open>
  C10.  In exact arithmetic the recentring is without effect on a non-empty
  PMI history: subtracting 50 from every entry lowers the mean by 50 and
  leaves the standard deviation (the substitution of 1 for 0 included) as it
  is, so the PMI z-score of the result is the plain z-score of the raw PMI
  reading against the raw history; for the empty history the z-score of the
  result is the reading minus 50 and the plain z-score is the reading, and
  the two differ exactly when the history is empty.  Over doubles, the
  z-score of the result for the empty history is the double \<open>pmi.value - 50\<close>;
  for a non-empty history the two z-scores can differ there, as the example
  after the theorem shows.
\<close>

theorem pmi_recentering_exact:
  "(ph \<noteq> [] \<longrightarrow>
      mean (calculateStats (map (\<lambda>p. p - 50) ph)) = mean (calculateStats ph) - 50 \<and>
      stdDev (calculateStats (map (\<lambda>p. p - 50) ph)) = stdDev (calculateStats ph) \<and>
      pmiZScore (calculateBitcoinDirectionIndex now l lh p ph b bh) =
        calculateZScore (pmi_value p) (mean (calculateStats ph)) (stdDev (calculateStats ph))) \<and>
   (ph = [] \<longrightarrow>
      pmiZScore (calculateBitcoinDirectionIndex now l lh p ph b bh) = pmi_value p - 50 \<and>
      calculateZScore (pmi_value p) (mean (calculateStats ph)) (stdDev (calculateStats ph))
        = pmi_value p) \<and>
   (pmiZScore (calculateBitcoinDirectionIndex now l lh p ph b bh) \<noteq>
      calculateZScore (pmi_value p) (mean (calculateStats ph)) (stdDev (calculateStats ph))
    \<longleftrightarrow> ph = []) \<and>
   pmiZScore_d (calculateBitcoinDirectionIndex_d now' l' lh' p' [] b' bh') =
     fsub (pmi_value_d p') (Fin 50)"
proof -
  have exact: "(ph \<noteq> [] \<longrightarrow>
      mean (calculateStats (map (\<lambda>p. p - 50) ph)) = mean (calculateStats ph) - 50 \<and>
      stdDev (calculateStats (map (\<lambda>p. p - 50) ph)) = stdDev (calculateStats ph) \<and>
      pmiZScore (calculateBitcoinDirectionIndex now l lh p ph b bh) =
        calculateZScore (pmi_value p) (mean (calculateStats ph)) (stdDev (calculateStats ph))) \<and>
   (ph = [] \<longrightarrow>
      pmiZScore (calculateBitcoinDirectionIndex now l lh p ph b bh) = pmi_value p - 50 \<and>
      calculateZScore (pmi_value p) (mean (calculateStats ph)) (stdDev (calculateStats ph))
        = pmi_value p) \<and>
   (pmiZScore (calculateBitcoinDirectionIndex now l lh p ph b bh) \<noteq>
      calculateZScore (pmi_value p) (mean (calculateStats ph)) (stdDev (calculateStats ph))
    \<longleftrightarrow> ph = [])"
  proof (cases "ph = []")
    case True
    then show ?thesis
      by (simp add: result_fields(5) calculateStats_empty calculateZScore_def)
  next
    case False
    then show ?thesis
      by (simp add: result_fields(5) calculateStats_shift calculateZScore_def)
  qed
  have "pmiZScore_d (calculateBitcoinDirectionIndex_d now' l' lh' p' [] b' bh') =
     fsub (pmi_value_d p') (Fin 50)"
    by (rule pmiZScore_empty_history)
  with exact [THEN conjunct1] exact [THEN conjunct2, THEN conjunct1]
    exact [THEN conjunct2, THEN conjunct2]
  show ?thesis by (intro conjI)
qed

text \<open>
  Over doubles the recentring changes the result on a non-empty history.  The
  PMI reading 48.7 against the history of three readings 48.7: recentred, the
  entries are -1.2999999999999972, their sum and mean are exact, the standard
  deviation is 0 and replaced by 1, and the z-score is 0; plain, the sum
  rounds, the mean is 48.70000000000001, the standard deviation is
  7.1e-15 and the z-score is -1.
\<close>

theorem pmi_recentering_counterexample:
  "pmiZScore_d (calculateBitcoinDirectionIndex_d 0 (liquidity_snapshot (Fin 0)) []
       (pmi_snapshot pmi_487) [pmi_487, pmi_487, pmi_487] (price_snapshot (Fin 1)) []) = Fin 0 \<and>
   calculateZScore_d pmi_487 (mean_d (calculateStats_d [pmi_487, pmi_487, pmi_487]))
       (stdDev_d (calculateStats_d [pmi_487, pmi_487, pmi_487])) = Fin (- 1)"
  using recentred_z plain_z by (simp add: pmi_487_def)

theorem pmi_recentering_exact_witness:
  "[48, 52] \<noteq> ([] :: real list) \<and>
   pmiZScore (calculateBitcoinDirectionIndex 0 neutral_liquidity [5, 5] neutral_pmi [48, 52]
      sample_price [3, 3, 3]) = 0 \<and>
   calculateZScore (pmi_value neutral_pmi) (mean (calculateStats [48, 52]))
      (stdDev (calculateStats [48, 52])) = 0 \<and>
   pmiZScore (calculateBitcoinDirectionIndex 0 neutral_liquidity [5, 5] neutral_pmi []
      sample_price [3, 3, 3]) = 0 \<and>
   calculateZScore (pmi_value neutral_pmi) (mean (calculateStats []))
      (stdDev (calculateStats [])) = 50 \<and>
   pmiZScore_d (calculateBitcoinDirectionIndex_d 0 (liquidity_snapshot (Fin 0)) []
      (pmi_snapshot pmi_487) [] (price_snapshot (Fin 1)) []) =
     Fin (- (91479367430963 / 70368744177664))"
proof -
  note a = pmi_recentering_exact [of "[48, 52]" 0 neutral_liquidity "[5, 5]" neutral_pmi
      sample_price "[3, 3, 3]" 0 "liquidity_snapshot (Fin 0)" "[]" "pmi_snapshot pmi_487"
      "price_snapshot (Fin 1)" "[]"]
  note b = pmi_recentering_exact [of "[]" 0 neutral_liquidity "[5, 5]" neutral_pmi
      sample_price "[3, 3, 3]" 0 "liquidity_snapshot (Fin 0)" "[]" "pmi_snapshot pmi_487"
      "price_snapshot (Fin 1)" "[]"]
  have r: "rd (91479367430963 / 70368744177664) = Fin (91479367430963 / 70368744177664)"
    using rd_round [of "91479367430963 / 70368744177664" 52] by (simp add: round_ties_even_def)
  have 1: "pmiZScore (calculateBitcoinDirectionIndex 0 neutral_liquidity [5, 5] neutral_pmi [48, 52]
      sample_price [3, 3, 3]) = 0"
    and 2: "calculateZScore (pmi_value neutral_pmi) (mean (calculateStats [48, 52]))
      (stdDev (calculateStats [48, 52])) = 0"
    using a by (simp_all add: neutral_pmi_def calculateStats_def reduce_sum_def calculateZScore_def)
  have 3: "pmiZScore (calculateBitcoinDirectionIndex 0 neutral_liquidity [5, 5] neutral_pmi []
      sample_price [3, 3, 3]) = 0"
    and 4: "calculateZScore (pmi_value neutral_pmi) (mean (calculateStats []))
      (stdDev (calculateStats [])) = 50"
    using b by (simp_all add: neutral_pmi_def)
  have 5: "pmiZScore_d (calculateBitcoinDirectionIndex_d 0 (liquidity_snapshot (Fin 0)) []
      (pmi_snapshot pmi_487) [] (price_snapshot (Fin 1)) []) =
     Fin (- (91479367430963 / 70368744177664))"
    using a by (simp add: pmi_snapshot_def pmi_487_value fsub_def rd_minus r)
  show ?thesis using 1 2 3 4 5 by simp
qed

end
